theory Spec2Isabelle
  imports Complex_Main
begin

section \<open>Sentry Defense: the simulation core of src/src/main.ts\<close>

text \<open>
  The simulation is embedded shallowly. JavaScript numbers are idealised as
  mathematical reals (integer-valued counters as \<open>int\<close> or \<open>nat\<close>), so rounding
  of IEEE doubles is outside the model. Objects of the three.js scene graph
  that only feed the renderer (meshes, materials, rotations, scale) are left
  out; positions, which the collision code reads, are kept.
\<close>

subsection \<open>Vectors (three.js \<open>Vector3\<close>)\<close>

datatype vec3 = Vec3 (vx: real) (vy: real) (vz: real)

definition lengthSq :: "vec3 \<Rightarrow> real" where
  "lengthSq v = vx v * vx v + vy v * vy v + vz v * vz v"

definition vlength :: "vec3 \<Rightarrow> real" where
  "vlength v = sqrt (lengthSq v)"

definition multiplyScalar :: "vec3 \<Rightarrow> real \<Rightarrow> vec3" where
  "multiplyScalar v k = Vec3 (vx v * k) (vy v * k) (vz v * k)"

definition divideScalar :: "vec3 \<Rightarrow> real \<Rightarrow> vec3" where
  "divideScalar v k = multiplyScalar v (1 / k)"

text \<open>\<open>normalize\<close> divides by \<open>length() || 1\<close>: a zero vector stays zero.\<close>

definition normalize :: "vec3 \<Rightarrow> vec3" where
  "normalize v = divideScalar v (if vlength v = 0 then 1 else vlength v)"

definition setLength :: "vec3 \<Rightarrow> real \<Rightarrow> vec3" where
  "setLength v l = multiplyScalar (normalize v) l"

definition vadd :: "vec3 \<Rightarrow> vec3 \<Rightarrow> vec3" where
  "vadd a b = Vec3 (vx a + vx b) (vy a + vy b) (vz a + vz b)"

definition vsub :: "vec3 \<Rightarrow> vec3 \<Rightarrow> vec3" where
  "vsub a b = Vec3 (vx a - vx b) (vy a - vy b) (vz a - vz b)"

definition addScaledVector :: "vec3 \<Rightarrow> vec3 \<Rightarrow> real \<Rightarrow> vec3" where
  "addScaledVector p v k = Vec3 (vx p + vx v * k) (vy p + vy v * k) (vz p + vz v * k)"

definition lerp :: "vec3 \<Rightarrow> vec3 \<Rightarrow> real \<Rightarrow> vec3" where
  "lerp a b alpha =
     Vec3 (vx a + (vx b - vx a) * alpha) (vy a + (vy b - vy a) * alpha)
          (vz a + (vz b - vz a) * alpha)"

definition distanceTo :: "vec3 \<Rightarrow> vec3 \<Rightarrow> real" where
  "distanceTo a b = vlength (vsub a b)"

definition setY :: "vec3 \<Rightarrow> real \<Rightarrow> vec3" where
  "setY v y = Vec3 (vx v) y (vz v)"

text \<open>\<open>Math.atan2(y, x)\<close>, from the arc tangent.\<close>

definition atan2 :: "real \<Rightarrow> real \<Rightarrow> real" where
  "atan2 y x =
     (if 0 < x then arctan (y / x)
      else if x < 0 then (if 0 \<le> y then arctan (y / x) + pi else arctan (y / x) - pi)
      else if 0 < y then pi / 2
      else if y < 0 then - (pi / 2)
      else 0)"

text \<open>\<open>Math.round\<close> rounds halves upwards.\<close>

definition js_round :: "real \<Rightarrow> int" where
  "js_round x = \<lfloor>x + 1 / 2\<rfloor>"

subsection \<open>Constants\<close>

definition ENEMY_SPAWN_RADIUS :: real where "ENEMY_SPAWN_RADIUS = 70"
definition ENEMY_TARGET_RADIUS :: real where "ENEMY_TARGET_RADIUS = 4"
definition BULLET_SPEED :: real where "BULLET_SPEED = 90"
definition BULLET_LIFETIME :: real where "BULLET_LIFETIME = 28 / 10"
definition BASE_FIRE_RATE :: real where "BASE_FIRE_RATE = 16 / 100"
definition RAPID_FIRE_MULTIPLIER :: real where "RAPID_FIRE_MULTIPLIER = 5 / 10"
definition EXPLOSIVE_RADIUS :: real where "EXPLOSIVE_RADIUS = 10"
definition POWER_UP_LIFETIME :: real where "POWER_UP_LIFETIME = 12"
definition POWER_UP_DROP_CHANCE :: real where "POWER_UP_DROP_CHANCE = 22 / 100"
definition POWER_PICKUP_RADIUS :: real where "POWER_PICKUP_RADIUS = 5"
definition AIM_PLANE_HEIGHT :: real where "AIM_PLANE_HEIGHT = 24 / 10"
definition MIN_INTERMISSION :: real where "MIN_INTERMISSION = 22 / 10"
definition MAX_INTERMISSION :: real where "MAX_INTERMISSION = 42 / 10"
definition MIN_AIM_DISTANCE :: real where "MIN_AIM_DISTANCE = 10"
definition MAX_AIM_DISTANCE :: real where "MAX_AIM_DISTANCE = 85"
definition KEYBOARD_AIM_SPEED :: real where "KEYBOARD_AIM_SPEED = 36"
definition TOKENS_PER_KILL :: int where "TOKENS_PER_KILL = 4"
definition WAVE_CLEAR_BONUS :: int where "WAVE_CLEAR_BONUS = 12"
definition DEPLOYMENT_BONUS :: int where "DEPLOYMENT_BONUS = 25"

subsection \<open>Wave tuning\<close>

record WaveTuning =
  count :: int
  baseHealth :: int
  baseSpeed :: real
  maxSimultaneous :: int
  spawnIntervalMin :: real
  spawnIntervalMax :: real

definition getWaveTuning :: "nat \<Rightarrow> WaveTuning" where
  "getWaveTuning currentWave =
     (let progression = min 1 ((real currentWave - 1) / 18);
          intervalMin = max (95 / 100) (17 / 10 - progression * (65 / 100));
          intervalMax = max (intervalMin + 55 / 100) (28 / 10 - progression * (5 / 10))
      in \<lparr> count = js_round (5 + real currentWave * (21 / 10)
                               + (real currentWave powr (105 / 100)) * (25 / 100)),
            baseHealth = 3 + \<lfloor>real currentWave / 2\<rfloor>,
            baseSpeed = 7 + real currentWave * (45 / 100),
            maxSimultaneous = min (5 + \<lfloor>real currentWave * (6 / 10)\<rfloor>) 16,
            spawnIntervalMin = intervalMin,
            spawnIntervalMax = intervalMax \<rparr>)"

definition intermissionDurationForWave :: "nat \<Rightarrow> real" where
  "intermissionDurationForWave nextWave =
     (let reduction = min (real nextWave * (15 / 100)) (15 / 10)
      in max MIN_INTERMISSION (MAX_INTERMISSION - reduction))"

subsection \<open>Entities and the simulation state\<close>

datatype GameState = Playing | Dead

record Bullet =
  bulletPos :: vec3
  bulletVelocity :: vec3
  life :: real

record Enemy =
  enemyPos :: vec3
  velocity :: vec3
  health :: int
  speed :: real
  radius :: real
  halfHeight :: real
  idlePhase :: real
  bobRate :: real
  lean :: real

datatype PowerUpType = RapidFire | Shield | Explosive

record PowerUp =
  powerPos :: vec3
  powerType :: PowerUpType
  timeToLive :: real

text \<open>
  The turret built by a machine variant. World positions of the gun pivot and
  of the muzzles come from the scene graph; they are parameters of the model,
  given as functions of the turret's yaw and pitch.
\<close>

record Machine =
  machineId :: string
  machineName :: string
  muzzleCount :: nat
  pivotWorldAt :: "real \<Rightarrow> vec3"
  muzzleWorldAt :: "nat \<Rightarrow> real \<Rightarrow> real \<Rightarrow> vec3"

text \<open>The status line, one constructor for each message template of the source.\<close>

datatype Status =
    ConnectWalletDeploy
  | ConnectWalletMint
  | Calibrated string
  | AimHint
  | WaveInbound nat int bool
  | BaseDestroyed string
  | RapidFireActive
  | ShieldObtained
  | ExplosiveArmed
  | ShieldAbsorbed
  | SectorClear nat

datatype PowerLabel = RapidFireLabel int | ExplosiveLabel int | ShieldLabel int

text \<open>Calls into the bridge (\<open>updateBridgeFromGame\<close> and its siblings), in order.\<close>

datatype BridgeCall =
    BridgeStats nat int Status "PowerLabel list" int
  | GameOverFlag bool
  | MenuFlags
  | GameReadiness bool
  | ActiveMachine "string option"
  | Deployed string

text \<open>
  \<open>grantTokenBonus\<close> receives only an amount; the log tags each call with the
  call site that made it (\<open>startSession\<close> or \<open>spawnWaveIfReady\<close>).
\<close>

datatype BonusSource = Deployment | WaveClear

record AimInput =
  up :: bool
  down :: bool
  left :: bool
  right :: bool

text \<open>
  Enemies are objects: the array \<open>enemies\<close> holds references, the objects live
  in \<open>heap\<close>. \<open>Math.random()\<close> reads the next value of \<open>rng\<close>.
\<close>

record Sim =
  gameState :: GameState
  selectionActive :: bool
  selectedVariantIndex :: int
  machine :: "Machine option"
  muzzleIndex :: nat
  turretYaw :: real
  gunPitch :: real
  aimTarget :: vec3
  aimDirection :: vec3
  pointer :: vec3
  aimInputState :: AimInput
  fireCooldown :: real
  score :: real
  lastScoreDisplayed :: int
  wave :: nat
  enemiesToSpawn :: int
  intermission :: real
  spawnCooldown :: real
  shieldCharges :: int
  statusMessage :: Status
  waveTuning :: WaveTuning
  elapsedTime :: real
  bullets :: "Bullet list"
  enemies :: "nat list"
  heap :: "nat \<Rightarrow> Enemy"
  nextRef :: nat
  powerUps :: "PowerUp list"
  rapidFireTimer :: real
  explosiveTimer :: real
  submitScoreRecord :: int
  rng :: "nat \<Rightarrow> real"
  rngPos :: nat
  bridgeCalls :: "BridgeCall list"
  tokenBonuses :: "(BonusSource \<times> int) list"
  killRewards :: "int list"
  submittedScores :: "int list"
  newRecords :: nat

subsection \<open>Telemetry\<close>

definition powerLabels :: "Sim \<Rightarrow> PowerLabel list" where
  "powerLabels s =
     (if rapidFireTimer s > 0 then [RapidFireLabel \<lceil>rapidFireTimer s\<rceil>] else []) @
     (if explosiveTimer s > 0 then [ExplosiveLabel \<lceil>explosiveTimer s\<rceil>] else []) @
     (if shieldCharges s > 0 then [ShieldLabel (shieldCharges s)] else [])"

definition pushBridgeStats :: "Sim \<Rightarrow> Sim" where
  "pushBridgeStats s =
     s\<lparr> lastScoreDisplayed := \<lfloor>score s\<rfloor>,
        bridgeCalls := bridgeCalls s @
          [BridgeStats (wave s) \<lfloor>score s\<rfloor> (statusMessage s) (powerLabels s)
             (int (length (enemies s)) + enemiesToSpawn s)] \<rparr>"

definition setStatus :: "Status \<Rightarrow> Sim \<Rightarrow> Sim" where
  "setStatus message s = pushBridgeStats (s\<lparr> statusMessage := message \<rparr>)"

definition setGameReadiness :: "bool \<Rightarrow> Sim \<Rightarrow> Sim" where
  "setGameReadiness ready s = s\<lparr> bridgeCalls := bridgeCalls s @ [GameReadiness ready] \<rparr>"

definition setActiveMachineFromGame :: "string option \<Rightarrow> Sim \<Rightarrow> Sim" where
  "setActiveMachineFromGame mid s = s\<lparr> bridgeCalls := bridgeCalls s @ [ActiveMachine mid] \<rparr>"

definition grantTokenBonus :: "BonusSource \<Rightarrow> int \<Rightarrow> Sim \<Rightarrow> Sim" where
  "grantTokenBonus src amount s = s\<lparr> tokenBonuses := tokenBonuses s @ [(src, amount)] \<rparr>"

definition recordKillReward :: "int \<Rightarrow> Sim \<Rightarrow> Sim" where
  "recordKillReward amount s = s\<lparr> killRewards := killRewards s @ [amount] \<rparr>"

subsection \<open>Aim controller\<close>

definition orientTurretTowards :: "vec3 \<Rightarrow> Sim \<Rightarrow> Sim" where
  "orientTurretTowards target s =
     (case machine s of
        None \<Rightarrow> s
      | Some m \<Rightarrow>
          let pivotPos = pivotWorldAt m (turretYaw s);
              d0 = vsub target pivotPos;
              d1 = (if lengthSq d0 < 1 / 1000000 then Vec3 0 0 1 else d0);
              d = normalize d1;
              yaw = atan2 (vx d) (vz d);
              horizontalLen = sqrt (vx d * vx d + vz d * vz d);
              pitch = max (min (atan2 (vy d) horizontalLen) (5 / 10)) (- (9 / 10));
              cosPitch = cos pitch
          in s\<lparr> turretYaw := yaw, gunPitch := pitch,
                aimDirection := Vec3 (sin yaw * cosPitch) (sin pitch) (cos yaw * cosPitch) \<rparr>)"

definition alignTurretToNeutralPose :: "Sim \<Rightarrow> Sim" where
  "alignTurretToNeutralPose s =
     (case machine s of
        None \<Rightarrow> s
      | Some m \<Rightarrow>
          let pivotPos = pivotWorldAt m (turretYaw s);
              neutralDistance = max (MIN_AIM_DISTANCE * 2) 30;
              s1 = orientTurretTowards
                     (Vec3 (vx pivotPos) (vy pivotPos) (vz pivotPos + neutralDistance)) s
          in s1\<lparr> aimTarget := Vec3 0 AIM_PLANE_HEIGHT neutralDistance \<rparr>)"

text \<open>
  \<open>clampAimTarget\<close> works on the scratch vector \<open>horizontalScratch\<close>, which is
  written before it is read; the model keeps it local.
\<close>

definition clampAimTarget :: "Sim \<Rightarrow> Sim" where
  "clampAimTarget s =
     (let h0 = Vec3 (vx (aimTarget s)) 0 (vz (aimTarget s));
          d0 = vlength h0;
          h1 = (if d0 < 1 / 10000 then Vec3 0 0 MIN_AIM_DISTANCE else h0);
          distance = (if d0 < 1 / 10000 then MIN_AIM_DISTANCE else d0);
          h2 = (if distance < MIN_AIM_DISTANCE then setLength h1 MIN_AIM_DISTANCE
                else if distance > MAX_AIM_DISTANCE then setLength h1 MAX_AIM_DISTANCE
                else h1)
      in s\<lparr> aimTarget := Vec3 (vx h2) AIM_PLANE_HEIGHT (vz h2) \<rparr>)"

definition setAimTargetFromPoint :: "vec3 \<Rightarrow> Sim \<Rightarrow> Sim" where
  "setAimTargetFromPoint point s =
     (if machine s = None then s
      else let s1 = clampAimTarget (s\<lparr> aimTarget := setY point AIM_PLANE_HEIGHT \<rparr>)
           in orientTurretTowards (aimTarget s1) s1)"

definition updateKeyboardAim :: "real \<Rightarrow> Sim \<Rightarrow> Sim" where
  "updateKeyboardAim dt s =
     (if selectionActive s \<or> machine s = None then s
      else let k = aimInputState s;
               keyboardDelta = Vec3 ((if right k then 1 else 0) - (if left k then 1 else 0)) 0
                                    ((if up k then 1 else 0) - (if down k then 1 else 0))
           in if lengthSq keyboardDelta = 0 then s
              else let delta = multiplyScalar (normalize keyboardDelta) (KEYBOARD_AIM_SPEED * dt);
                       s1 = clampAimTarget
                              (s\<lparr> aimTarget := setY (vadd (aimTarget s) delta) AIM_PLANE_HEIGHT \<rparr>)
                   in orientTurretTowards (aimTarget s1) s1)"

text \<open>
  \<open>updateAimFromPointer\<close> intersects the camera ray with the aim plane; the
  intersection point, when there is one, is the input \<open>hit\<close>.
\<close>

definition updateAimFromPointer :: "vec3 option \<Rightarrow> Sim \<Rightarrow> Sim" where
  "updateAimFromPointer hit s =
     (if selectionActive s \<or> machine s = None then s
      else case hit of
             None \<Rightarrow> s
           | Some p \<Rightarrow> setAimTargetFromPoint p (s\<lparr> pointer := p \<rparr>))"

definition handleAimKey :: "string \<Rightarrow> bool \<Rightarrow> Sim \<Rightarrow> bool \<times> Sim" where
  "handleAimKey code isDown s =
     (let k = aimInputState s in
      if code = ''ArrowUp'' \<or> code = ''KeyW'' then (True, s\<lparr> aimInputState := k\<lparr> up := isDown \<rparr> \<rparr>)
      else if code = ''ArrowDown'' \<or> code = ''KeyS''
        then (True, s\<lparr> aimInputState := k\<lparr> down := isDown \<rparr> \<rparr>)
      else if code = ''ArrowLeft'' \<or> code = ''KeyA''
        then (True, s\<lparr> aimInputState := k\<lparr> left := isDown \<rparr> \<rparr>)
      else if code = ''ArrowRight'' \<or> code = ''KeyD''
        then (True, s\<lparr> aimInputState := k\<lparr> right := isDown \<rparr> \<rparr>)
      else (False, s))"

subsection \<open>Wave director\<close>

text \<open>\<open>Math.random()\<close>: the value read, and the state with the source advanced.\<close>

definition randomValue :: "Sim \<Rightarrow> real" where
  "randomValue s = rng s (rngPos s)"

definition advanceRandom :: "Sim \<Rightarrow> Sim" where
  "advanceRandom s = s\<lparr> rngPos := rngPos s + 1 \<rparr>"

definition scheduleNextSpawn :: "bool \<Rightarrow> Sim \<Rightarrow> Sim" where
  "scheduleNextSpawn forceFast s =
     (let t = waveTuning s;
          intervalRange = spawnIntervalMax t - spawnIntervalMin t;
          baseline = (if forceFast then spawnIntervalMin t * (6 / 10)
                      else spawnIntervalMin t + randomValue s * intervalRange);
          s1 = (if forceFast then s else advanceRandom s);
          crowdFactor = real (length (enemies s)) / real_of_int (max 1 (maxSimultaneous t))
      in s1\<lparr> spawnCooldown := baseline * (1 + crowdFactor * (8 / 10)) \<rparr>)"

definition beginWave :: "nat \<Rightarrow> bool \<Rightarrow> Sim \<Rightarrow> Sim" where
  "beginWave nextWave freshStart s =
     (let t = getWaveTuning nextWave;
          s1 = s\<lparr> wave := nextWave, waveTuning := t, enemiesToSpawn := count t,
                  intermission := 0 \<rparr>;
          s2 = scheduleNextSpawn True s1;
          s3 = setStatus (WaveInbound nextWave (count t) freshStart) s2
      in pushBridgeStats s3)"

text \<open>
  \<open>spawnEnemy\<close> draws nine random numbers, in this order: angle, ring radius,
  speed variation, bonus health, then three inside \<open>createHumanoidEnemy\<close>
  (palette, lean, scale), then idle phase and bob rate.
\<close>

definition spawnEnemy :: "Sim \<Rightarrow> Sim" where
  "spawnEnemy s =
     (let r = (\<lambda>k. rng s (rngPos s + k));
          angle = r 0 * pi * 2;
          ringRadius = ENEMY_SPAWN_RADIUS + r 1 * 15;
          position = Vec3 (cos angle * ringRadius) 0 (sin angle * ringRadius);
          dir = normalize (vsub (Vec3 0 0 0) position);
          speedVariation = baseSpeed (waveTuning s) * (25 / 100);
          spd = baseSpeed (waveTuning s) + (r 2 - 5 / 10) * speedVariation;
          hp = baseHealth (waveTuning s) + (if r 3 < 2 / 10 then 1 else 0);
          e = \<lparr> enemyPos = position, velocity = multiplyScalar dir spd, health = hp,
                speed = spd, radius = 12 / 10, halfHeight = 52 / 10,
                idlePhase = r 7 * pi * 2, bobRate = 2 + r 8,
                lean = (r 5 - 5 / 10) * (8 / 100) \<rparr>;
          ref = nextRef s
      in pushBridgeStats
           (s\<lparr> rngPos := rngPos s + 9, heap := (heap s)(ref := e), nextRef := ref + 1,
               enemies := enemies s @ [ref] \<rparr>))"

definition powerUpTypeOfRoll :: "real \<Rightarrow> PowerUpType" where
  "powerUpTypeOfRoll roll =
     (if roll < 33 / 100 then RapidFire else if roll < 66 / 100 then Shield else Explosive)"

definition spawnPowerUp :: "vec3 \<Rightarrow> Sim \<Rightarrow> Sim" where
  "spawnPowerUp position s =
     (let roll = randomValue s;
          s1 = advanceRandom s
      in s1\<lparr> powerUps := powerUps s1 @
                [\<lparr> powerPos = setY position (15 / 10), powerType = powerUpTypeOfRoll roll,
                   timeToLive = POWER_UP_LIFETIME \<rparr>] \<rparr>)"

definition spawnBullet :: "Sim \<Rightarrow> Sim" where
  "spawnBullet s =
     (case machine s of
        None \<Rightarrow> s
      | Some m \<Rightarrow>
          if muzzleCount m = 0 then s
          else let muzzleWorld = muzzleWorldAt m (muzzleIndex s) (turretYaw s) (gunPitch s)
               in s\<lparr> muzzleIndex := (muzzleIndex s + 1) mod muzzleCount m,
                     bullets := bullets s @
                       [\<lparr> bulletPos = muzzleWorld,
                          bulletVelocity = multiplyScalar (aimDirection s) BULLET_SPEED,
                          life = BULLET_LIFETIME \<rparr>] \<rparr>)"

subsection \<open>Session end and power-ups\<close>

definition submitScore :: "int \<Rightarrow> Sim \<Rightarrow> Sim" where
  "submitScore v s =
     (let s1 = s\<lparr> submittedScores := submittedScores s @ [v] \<rparr>
      in if v > submitScoreRecord s1
         then s1\<lparr> submitScoreRecord := v, newRecords := newRecords s1 + 1 \<rparr>
         else s1)"

definition killPlayer :: "string \<Rightarrow> Sim \<Rightarrow> Sim" where
  "killPlayer reason s =
     (if gameState s = Dead then s
      else let s1 = setStatus (BaseDestroyed reason) (s\<lparr> gameState := Dead \<rparr>);
               s2 = submitScore \<lfloor>score s1\<rfloor> s1
           in s2\<lparr> bridgeCalls := bridgeCalls s2 @ [GameOverFlag True] \<rparr>)"

definition applyPowerUp :: "PowerUpType \<Rightarrow> Sim \<Rightarrow> Sim" where
  "applyPowerUp pw s =
     pushBridgeStats
       (case pw of
          RapidFire \<Rightarrow> setStatus RapidFireActive (s\<lparr> rapidFireTimer := 8 \<rparr>)
        | Shield \<Rightarrow> setStatus ShieldObtained (s\<lparr> shieldCharges := min (shieldCharges s + 1) 3 \<rparr>)
        | Explosive \<Rightarrow> setStatus ExplosiveArmed (s\<lparr> explosiveTimer := 10 \<rparr>))"

subsection \<open>Combat resolver\<close>

text \<open>\<open>xs.splice(i, 1)\<close> for an index \<open>i\<close> inside the array.\<close>

definition removeAt :: "nat \<Rightarrow> 'a list \<Rightarrow> 'a list" where
  "removeAt i xs = take i xs @ drop (Suc i) xs"

text \<open>
  \<open>enemies.splice(enemies.indexOf(enemy), 1)\<close>: the first occurrence of the
  reference goes; when it is absent \<open>indexOf\<close> is -1 and \<open>splice(-1, 1)\<close> drops
  the last element.
\<close>

definition spliceEnemy :: "nat \<Rightarrow> nat list \<Rightarrow> nat list" where
  "spliceEnemy ref xs = (if ref \<in> set xs then remove1 ref xs else butlast xs)"

definition handleEnemyDeath :: "nat \<Rightarrow> Sim \<Rightarrow> Sim" where
  "handleEnemyDeath ref s =
     (let s1 = s\<lparr> score := score s + 10 \<rparr>;
          killReward = TOKENS_PER_KILL + \<lfloor>real (wave s1) * (5 / 10)\<rfloor>;
          s2 = recordKillReward killReward s1;
          roll = randomValue s2;
          s3 = advanceRandom s2;
          s4 = (if roll < POWER_UP_DROP_CHANCE then spawnPowerUp (enemyPos (heap s3 ref)) s3
                else s3);
          s5 = s4\<lparr> enemies := spliceEnemy ref (enemies s4) \<rparr>
      in pushBridgeStats s5)"

text \<open>\<open>explodeAt\<close> walks a copy of the array taken before the loop.\<close>

fun explodeLoop :: "vec3 \<Rightarrow> nat list \<Rightarrow> Sim \<Rightarrow> Sim" where
  "explodeLoop position [] s = s"
| "explodeLoop position (ref # rest) s =
     explodeLoop position rest
       (if distanceTo (enemyPos (heap s ref)) position \<le> EXPLOSIVE_RADIUS
        then handleEnemyDeath ref (s\<lparr> heap := (heap s)(ref := (heap s ref)\<lparr> health := 0 \<rparr>) \<rparr>)
        else s)"

definition explodeAt :: "vec3 \<Rightarrow> Sim \<Rightarrow> Sim" where
  "explodeAt position s = explodeLoop position (enemies s) s"

definition hitTest :: "vec3 \<Rightarrow> Enemy \<Rightarrow> bool" where
  "hitTest bulletP e =
     (let enemyP = enemyPos e; bulletY = vy bulletP; baseY = vy enemyP in
      if bulletY < baseY - 5 / 10 \<or> bulletY > baseY + halfHeight e * 2 + 5 / 10 then False
      else let dx = vx bulletP - vx enemyP; dz = vz bulletP - vz enemyP
           in dx * dx + dz * dz \<le> radius e * radius e)"

text \<open>
  One pass of the outer loop of \<open>updateBullets\<close>, for the bullet at index \<open>i\<close>.
  The inner loop leaves at the first enemy that passes the hit test, so it is
  a search for that enemy. The loop only removes the bullet it is at, so \<open>i\<close>
  is always inside the array; the last branch is never taken.
\<close>

definition moveBullet :: "real \<Rightarrow> Bullet \<Rightarrow> Bullet" where
  "moveBullet dt b =
     b\<lparr> bulletPos := addScaledVector (bulletPos b) (bulletVelocity b) dt, life := life b - dt \<rparr>"

definition bulletStep :: "real \<Rightarrow> nat \<Rightarrow> Sim \<Rightarrow> Sim" where
  "bulletStep dt i s =
     (if i < length (bullets s) then
        let b1 = moveBullet dt (bullets s ! i);
            s1 = s\<lparr> bullets := (bullets s)[i := b1] \<rparr>
        in if life b1 \<le> 0 then s1\<lparr> bullets := removeAt i (bullets s1) \<rparr>
           else case find (\<lambda>ref. hitTest (bulletPos b1) (heap s1 ref)) (enemies s1) of
                  None \<Rightarrow> s1
                | Some ref \<Rightarrow>
                    let e = heap s1 ref;
                        e1 = e\<lparr> health := health e - (if explosiveTimer s1 > 0 then 2 else 1) \<rparr>;
                        s2 = s1\<lparr> heap := (heap s1)(ref := e1) \<rparr>;
                        s3 = (if health e1 \<le> 0
                              then let s' = handleEnemyDeath ref s2
                                   in if explosiveTimer s' > 0
                                      then explodeAt (enemyPos (heap s' ref)) s' else s'
                              else s2)
                    in s3\<lparr> bullets := removeAt i (bullets s3) \<rparr>
      else s)"

fun updateBulletsLoop :: "real \<Rightarrow> nat \<Rightarrow> Sim \<Rightarrow> Sim" where
  "updateBulletsLoop dt 0 s = s"
| "updateBulletsLoop dt (Suc i) s = updateBulletsLoop dt i (bulletStep dt i s)"

definition updateBullets :: "real \<Rightarrow> Sim \<Rightarrow> Sim" where
  "updateBullets dt s = updateBulletsLoop dt (length (bullets s)) s"

text \<open>
  The steering, movement and bobbing of one enemy in \<open>updateEnemies\<close> (the
  mesh rotations are left out).
\<close>

definition steerEnemy :: "real \<Rightarrow> real \<Rightarrow> Enemy \<Rightarrow> Enemy" where
  "steerEnemy dt elapsed e =
     (let h = setY (enemyPos e) 0;
          distanceSq = lengthSq h;
          target = (if distanceSq > 0 then multiplyScalar (normalize h) (- speed e)
                    else Vec3 0 0 (- speed e));
          v = setY (lerp (velocity e) target (dt * (36 / 10))) 0;
          p = setY (addScaledVector (enemyPos e) v dt)
                   (sin (elapsed * bobRate e + idlePhase e) * (15 / 100))
      in e\<lparr> velocity := v, enemyPos := p \<rparr>)"

text \<open>
  One pass of the loop of \<open>updateEnemies\<close>, for the enemy at index \<open>i\<close>; the
  flag says that the loop returns (the player was killed). \<open>distanceSq\<close> is
  taken from the position the enemy has before it is moved.
\<close>

definition enemyStep :: "real \<Rightarrow> nat \<Rightarrow> Sim \<Rightarrow> bool \<times> Sim" where
  "enemyStep dt i s =
     (if i < length (enemies s) then
        let ref = enemies s ! i;
            e = heap s ref;
            distanceSq = lengthSq (setY (enemyPos e) 0);
            s1 = s\<lparr> heap := (heap s)(ref := steerEnemy dt (elapsedTime s) e) \<rparr>;
            distanceToCore = sqrt distanceSq
        in if distanceToCore \<le> ENEMY_TARGET_RADIUS then
             if shieldCharges s1 > 0
             then (False,
                   pushBridgeStats
                     (setStatus ShieldAbsorbed
                        (s1\<lparr> shieldCharges := shieldCharges s1 - 1,
                             enemies := removeAt i (enemies s1) \<rparr>)))
             else (True, killPlayer ''breach'' s1)
           else (False, s1)
      else (False, s))"

fun updateEnemiesLoop :: "real \<Rightarrow> nat \<Rightarrow> Sim \<Rightarrow> Sim" where
  "updateEnemiesLoop dt 0 s = s"
| "updateEnemiesLoop dt (Suc i) s =
     (case enemyStep dt i s of
        (True, s') \<Rightarrow> s'
      | (False, s') \<Rightarrow> updateEnemiesLoop dt i s')"

definition updateEnemies :: "real \<Rightarrow> Sim \<Rightarrow> Sim" where
  "updateEnemies dt s = updateEnemiesLoop dt (length (enemies s)) s"

definition turretPickupPoint :: vec3 where
  "turretPickupPoint = Vec3 0 (15 / 10) 0"

definition powerUpStep :: "real \<Rightarrow> nat \<Rightarrow> Sim \<Rightarrow> Sim" where
  "powerUpStep dt i s =
     (if i < length (powerUps s) then
        let p = powerUps s ! i;
            p1 = p\<lparr> timeToLive := timeToLive p - dt \<rparr>;
            s1 = s\<lparr> powerUps := (powerUps s)[i := p1] \<rparr>
        in if timeToLive p1 \<le> 0 then s1\<lparr> powerUps := removeAt i (powerUps s1) \<rparr>
           else if distanceTo (powerPos p1) turretPickupPoint < POWER_PICKUP_RADIUS
           then let s2 = applyPowerUp (powerType p1) s1
                in s2\<lparr> powerUps := removeAt i (powerUps s2) \<rparr>
           else s1
      else s)"

fun updatePowerUpsLoop :: "real \<Rightarrow> nat \<Rightarrow> Sim \<Rightarrow> Sim" where
  "updatePowerUpsLoop dt 0 s = s"
| "updatePowerUpsLoop dt (Suc i) s = updatePowerUpsLoop dt i (powerUpStep dt i s)"

definition updatePowerUps :: "real \<Rightarrow> Sim \<Rightarrow> Sim" where
  "updatePowerUps dt s = updatePowerUpsLoop dt (length (powerUps s)) s"

subsection \<open>The tick\<close>

definition spawnWaveIfReady :: "real \<Rightarrow> Sim \<Rightarrow> Sim" where
  "spawnWaveIfReady dt s =
     (if enemiesToSpawn s > 0 then
        let s1 = s\<lparr> spawnCooldown := spawnCooldown s - dt \<rparr>
        in if spawnCooldown s1 \<le> 0 then
             if int (length (enemies s1)) \<ge> maxSimultaneous (waveTuning s1)
             then s1\<lparr> spawnCooldown := 25 / 100 \<rparr>
             else let s2 = spawnEnemy s1;
                      s3 = s2\<lparr> enemiesToSpawn := enemiesToSpawn s2 - 1 \<rparr>
                  in if enemiesToSpawn s3 > 0 then scheduleNextSpawn False s3 else s3
           else s1
      else if length (enemies s) = 0 \<and> gameState s = Playing then
        if intermission s \<le> 0
        then setStatus (SectorClear (wave s + 1))
               (grantTokenBonus WaveClear (WAVE_CLEAR_BONUS + \<lfloor>real (wave s) * (15 / 10)\<rfloor>)
                  (s\<lparr> intermission := intermissionDurationForWave (wave s + 1) \<rparr>))
        else let s1 = s\<lparr> intermission := intermission s - dt \<rparr>
             in if intermission s1 \<le> 0 then beginWave (wave s1 + 1) False s1 else s1
      else s)"

definition updatePowerTimers :: "real \<Rightarrow> Sim \<Rightarrow> Sim" where
  "updatePowerTimers dt s =
     (let rnext = max (rapidFireTimer s - dt) 0;
          c1 = (rapidFireTimer s > 0 \<and> rnext \<noteq> rapidFireTimer s \<and> rnext = 0);
          s1 = (if rapidFireTimer s > 0 then s\<lparr> rapidFireTimer := rnext \<rparr> else s);
          enext = max (explosiveTimer s1 - dt) 0;
          c2 = (explosiveTimer s1 > 0 \<and> enext \<noteq> explosiveTimer s1 \<and> enext = 0);
          s2 = (if explosiveTimer s1 > 0 then s1\<lparr> explosiveTimer := enext \<rparr> else s1)
      in if c1 \<or> c2 then pushBridgeStats s2 else s2)"

definition updateFire :: "real \<Rightarrow> Sim \<Rightarrow> Sim" where
  "updateFire dt s =
     (if selectionActive s then s
      else let s1 = s\<lparr> fireCooldown := fireCooldown s - dt \<rparr>;
               rateMultiplier = (if rapidFireTimer s1 > 0 then RAPID_FIRE_MULTIPLIER else 1)
           in if fireCooldown s1 \<le> 0 \<and> gameState s1 = Playing
              then (spawnBullet s1)\<lparr> fireCooldown := BASE_FIRE_RATE * rateMultiplier \<rparr>
              else s1)"

definition updateScore :: "real \<Rightarrow> Sim \<Rightarrow> Sim" where
  "updateScore dt s =
     (let s1 = s\<lparr> score := score s + dt * real (length (enemies s)) * 2 \<rparr>
      in if \<lfloor>score s1\<rfloor> \<noteq> lastScoreDisplayed s1 then pushBridgeStats s1 else s1)"

text \<open>
  The body of \<open>gameLoop\<close> without the rendering; \<open>delta\<close> is what the clock
  returns.
\<close>

definition gameLoop :: "real \<Rightarrow> Sim \<Rightarrow> Sim" where
  "gameLoop delta s =
     (let dt = min delta (33 / 1000);
          s1 = updateKeyboardAim dt (s\<lparr> elapsedTime := elapsedTime s + dt \<rparr>)
      in if \<not> selectionActive s1 \<and> gameState s1 = Playing
         then updateScore dt (updatePowerTimers dt (updatePowerUps dt (updateEnemies dt
                (updateBullets dt (updateFire dt (spawnWaveIfReady dt s1))))))
         else s1)"

subsection \<open>Session state machine\<close>

definition resetGame :: "Sim \<Rightarrow> Sim" where
  "resetGame s =
     (if machine s = None then setGameReadiness False (s\<lparr> selectionActive := True \<rparr>)
      else let s1 = s\<lparr> bullets := [], enemies := [], powerUps := [], score := 0,
                       lastScoreDisplayed := 0, intermission := 0, spawnCooldown := 0,
                       fireCooldown := 0, rapidFireTimer := 0, explosiveTimer := 0,
                       shieldCharges := 0, gameState := Playing,
                       aimInputState := \<lparr> up = False, down = False, left = False,
                                          right = False \<rparr>,
                       pointer := Vec3 0 AIM_PLANE_HEIGHT 28 \<rparr>
           in pushBridgeStats (setStatus AimHint
                (beginWave 1 True (alignTurretToNeutralPose s1))))"

definition restartGame :: "Sim \<Rightarrow> Sim" where
  "restartGame s =
     (let s1 = resetGame s in s1\<lparr> bridgeCalls := bridgeCalls s1 @ [GameOverFlag False] \<rparr>)"

definition returnToMenu :: "Sim \<Rightarrow> Sim" where
  "returnToMenu s =
     (let s1 = setActiveMachineFromGame None (setGameReadiness False s)
      in s1\<lparr> bridgeCalls := bridgeCalls s1 @ [MenuFlags] \<rparr>)"

text \<open>
  The machine variants are built from meshes; the list of built variants is a
  parameter. A freshly built turret has yaw and pitch 0.
\<close>

definition applyMachineVariant :: "Machine list \<Rightarrow> nat \<Rightarrow> Sim \<Rightarrow> Sim" where
  "applyMachineVariant machineVariants index s =
     (if index < length machineVariants then
        let variant = machineVariants ! index;
            s1 = s\<lparr> machine := Some variant, turretYaw := 0, gunPitch := 0, muzzleIndex := 0,
                    selectedVariantIndex := int index \<rparr>
        in setStatus (Calibrated (machineName variant))
             (setActiveMachineFromGame (Some (machineId variant)) (alignTurretToNeutralPose s1))
      else s)"

definition handleVariantSelection :: "Machine list \<Rightarrow> nat \<Rightarrow> Sim \<Rightarrow> Sim" where
  "handleVariantSelection machineVariants index s =
     setGameReadiness True ((applyMachineVariant machineVariants index s)\<lparr> selectionActive := False \<rparr>)"

fun findIndex :: "('a \<Rightarrow> bool) \<Rightarrow> 'a list \<Rightarrow> nat option" where
  "findIndex P [] = None"
| "findIndex P (x # xs) = (if P x then Some 0 else map_option Suc (findIndex P xs))"

definition selectMachine :: "Machine list \<Rightarrow> string \<Rightarrow> Sim \<Rightarrow> bool \<times> Sim" where
  "selectMachine machineVariants mid s =
     (case findIndex (\<lambda>variant. machineId variant = mid) machineVariants of
        None \<Rightarrow> (False, s)
      | Some index \<Rightarrow> (True, handleVariantSelection machineVariants index s))"

definition startSession :: "Sim \<Rightarrow> Sim" where
  "startSession s =
     (if machine s = None then s
      else grantTokenBonus Deployment DEPLOYMENT_BONUS (resetGame s))"

text \<open>
  \<open>deployMachine\<close> of the bridge (src/src/ui/gameBridge.ts) starts a session:
  it selects the machine and calls \<open>startSession\<close>. Whether the machine is
  minted is bridge state, here the input \<open>minted\<close>; the game actions are
  registered when main.ts is loaded.
\<close>

definition deployMachine :: "Machine list \<Rightarrow> bool \<Rightarrow> string \<Rightarrow> Sim \<Rightarrow> bool \<times> Sim" where
  "deployMachine machineVariants minted mid s =
     (if \<not> minted then (False, s)
      else case selectMachine machineVariants mid s of
             (False, s1) \<Rightarrow> (False, s1)
           | (True, s1) \<Rightarrow>
               (True, startSession (s1\<lparr> bridgeCalls := bridgeCalls s1 @ [Deployed mid] \<rparr>)))"

text \<open>
  What can happen to the simulation after a session has started, until the
  next session start: frames, pointer and key events, and the overlay's
  restart and menu buttons.
\<close>

datatype Action =
    Tick real
  | PointerMove "vec3 option"
  | Key string bool
  | Restart
  | ReturnToMenu

fun act :: "Action \<Rightarrow> Sim \<Rightarrow> Sim" where
  "act (Tick delta) s = gameLoop delta s"
| "act (PointerMove hit) s = updateAimFromPointer hit s"
| "act (Key code isDown) s = snd (handleAimKey code isDown s)"
| "act Restart s = restartGame s"
| "act ReturnToMenu s = returnToMenu s"

fun run :: "Action list \<Rightarrow> Sim \<Rightarrow> Sim" where
  "run [] s = s"
| "run (a # as) s = run as (act a s)"

subsection \<open>Notions used in the statements\<close>

text \<open>The distance of a point from the vertical axis through the origin.\<close>

definition horizontalDistance :: "vec3 \<Rightarrow> real" where
  "horizontalDistance p = vlength (setY p 0)"

text \<open>An aim target on the aim plane, between the two aim distances.\<close>

definition aimInRange :: "vec3 \<Rightarrow> bool" where
  "aimInRange t =
     (MIN_AIM_DISTANCE \<le> horizontalDistance t \<and> horizontalDistance t \<le> MAX_AIM_DISTANCE
      \<and> vy t = AIM_PLANE_HEIGHT)"

text \<open>
  A roll of \<open>Math.random()\<close> is uniform in [0, 1). When the rolls that select
  an event form an interval, the probability of the event is the length of
  that interval.
\<close>

definition rollProb :: "(real \<Rightarrow> bool) \<Rightarrow> real \<Rightarrow> bool" where
  "rollProb ev p =
     (\<exists>a b. 0 \<le> a \<and> a \<le> b \<and> b \<le> 1 \<and> {r. 0 \<le> r \<and> r < 1 \<and> ev r} = {a..<b} \<and> p = b - a)"

text \<open>The test of \<open>explodeAt\<close> for one enemy, and the body it runs when the test holds.\<close>

definition inBlast :: "Sim \<Rightarrow> vec3 \<Rightarrow> nat \<Rightarrow> bool" where
  "inBlast s position ref = (distanceTo (enemyPos (heap s ref)) position \<le> EXPLOSIVE_RADIUS)"

definition explodeKill :: "nat \<Rightarrow> Sim \<Rightarrow> Sim" where
  "explodeKill ref s =
     handleEnemyDeath ref (s\<lparr> heap := (heap s)(ref := (heap s ref)\<lparr> health := 0 \<rparr>) \<rparr>)"

text \<open>
  The enemies of the wave that are still to come or still alive, and the bound
  the wave director keeps on them.
\<close>

definition pending :: "Sim \<Rightarrow> int" where
  "pending s = enemiesToSpawn s + int (length (enemies s))"

definition waveInv :: "Sim \<Rightarrow> bool" where
  "waveInv s = (0 \<le> enemiesToSpawn s \<and> pending s \<le> count (waveTuning s))"

text \<open>The calls of \<open>grantTokenBonus\<close> made by \<open>startSession\<close>.\<close>

definition deploymentBonuses :: "Sim \<Rightarrow> (BonusSource \<times> int) list" where
  "deploymentBonuses s = filter (\<lambda>b. fst b = Deployment) (tokenBonuses s)"

text \<open>
  The wave bookkeeping, the bonus log and the machine: a step is quiet when it
  leaves them alone and adds no enemy.
\<close>

definition core :: "Sim \<Rightarrow> nat \<times> WaveTuning \<times> int \<times> (BonusSource \<times> int) list \<times> Machine option" where
  "core s = (wave s, waveTuning s, enemiesToSpawn s, tokenBonuses s, machine s)"

definition quietStep :: "Sim \<Rightarrow> Sim \<Rightarrow> bool" where
  "quietStep s t = (core t = core s \<and> length (enemies t) \<le> length (enemies s))"

subsection \<open>Concrete states for examples\<close>

definition demoMachine :: Machine where
  "demoMachine =
     \<lparr> machineId = ''sentinel'', machineName = ''Sentinel Mk I'', muzzleCount = 2,
       pivotWorldAt = (\<lambda>yaw. Vec3 (sin yaw * (7 / 10)) (69 / 10) (cos yaw * (7 / 10))),
       muzzleWorldAt = (\<lambda>k yaw pitch. Vec3 0 (69 / 10) 0) \<rparr>"

definition demoEnemy :: "real \<Rightarrow> real \<Rightarrow> int \<Rightarrow> Enemy" where
  "demoEnemy x z hp =
     \<lparr> enemyPos = Vec3 x 0 z, velocity = Vec3 0 0 0, health = hp, speed = 8,
       radius = 12 / 10, halfHeight = 52 / 10, idlePhase = 0, bobRate = 2, lean = 0 \<rparr>"

definition demoSim :: Sim where
  "demoSim =
     \<lparr> gameState = Playing, selectionActive = False, selectedVariantIndex = 0,
       machine = Some demoMachine, muzzleIndex = 0, turretYaw = 0, gunPitch = 0,
       aimTarget = Vec3 0 AIM_PLANE_HEIGHT 30, aimDirection = Vec3 0 0 1,
       pointer = Vec3 0 AIM_PLANE_HEIGHT 28,
       aimInputState = \<lparr> up = False, down = False, left = False, right = False \<rparr>,
       fireCooldown = 0, score = 0, lastScoreDisplayed = 0, wave = 1, enemiesToSpawn = 0,
       intermission = 0, spawnCooldown = 0, shieldCharges = 0, statusMessage = AimHint,
       waveTuning = getWaveTuning 1, elapsedTime = 0, bullets = [], enemies = [],
       heap = (\<lambda>ref. demoEnemy 50 0 3), nextRef = 0, powerUps = [], rapidFireTimer = 0,
       explosiveTimer = 0, submitScoreRecord = 0, rng = (\<lambda>k. 1 / 2), rngPos = 0,
       bridgeCalls = [], tokenBonuses = [], killRewards = [], submittedScores = [],
       newRecords = 0 \<rparr>"

definition demoKeySim :: Sim where
  "demoKeySim =
     demoSim\<lparr> aimInputState := \<lparr> up = True, down = False, left = False, right = False \<rparr> \<rparr>"

definition demoBreachSim :: Sim where
  "demoBreachSim =
     demoSim\<lparr> enemies := [0, 1],
              heap := (\<lambda>ref. if ref = 0 then demoEnemy 50 0 3 else demoEnemy 3 0 3),
              shieldCharges := 1 \<rparr>"

definition demoCrossSim :: Sim where
  "demoCrossSim = demoSim\<lparr> enemies := [0], heap := (\<lambda>ref. demoEnemy (401 / 100) 0 3) \<rparr>"

definition demoDeadSim :: Sim where
  "demoDeadSim = demoSim\<lparr> gameState := Dead \<rparr>"

definition demoDropSim :: Sim where
  "demoDropSim =
     demoSim\<lparr> enemies := [0], rng := (\<lambda>k. if k = 0 then 1 / 10 else 665 / 1000) \<rparr>"

definition demoBlastSim :: Sim where
  "demoBlastSim =
     demoSim\<lparr> enemies := [0, 1, 2],
              heap := (\<lambda>ref. if ref = 0 then demoEnemy 20 0 2
                             else if ref = 1 then demoEnemy 23 0 5 else demoEnemy 50 0 3) \<rparr>"


definition demoMidWaveSim :: Sim where
  "demoMidWaveSim = demoSim\<lparr> enemiesToSpawn := 5, spawnCooldown := 1 / 100 \<rparr>"

definition demoWaveEndSim :: Sim where
  "demoWaveEndSim = demoSim\<lparr> intermission := 1 / 100 \<rparr>"

section \<open>Theorems\<close>

lemmas consts_defs =
  ENEMY_SPAWN_RADIUS_def ENEMY_TARGET_RADIUS_def BULLET_SPEED_def BULLET_LIFETIME_def
  BASE_FIRE_RATE_def RAPID_FIRE_MULTIPLIER_def EXPLOSIVE_RADIUS_def POWER_UP_LIFETIME_def
  POWER_UP_DROP_CHANCE_def POWER_PICKUP_RADIUS_def AIM_PLANE_HEIGHT_def
  MIN_INTERMISSION_def MAX_INTERMISSION_def MIN_AIM_DISTANCE_def MAX_AIM_DISTANCE_def
  KEYBOARD_AIM_SPEED_def TOKENS_PER_KILL_def WAVE_CLEAR_BONUS_def DEPLOYMENT_BONUS_def

subsection \<open>Wave tuning at wave 1\<close>

text \<open>
  C7. The tuning of wave 1: \<open>getWaveTuning 1\<close> has count 7, base health 3, base
  speed 7.45, at most 5 simultaneous enemies and the spawn interval [1.7, 2.8].
\<close>

theorem C7_getWaveTuning_wave1:
  "getWaveTuning 1 =
     \<lparr> count = 7, baseHealth = 3, baseSpeed = 745 / 100, maxSimultaneous = 5,
       spawnIntervalMin = 17 / 10, spawnIntervalMax = 28 / 10 \<rparr>"
  by (simp add: getWaveTuning_def js_round_def Let_def)

subsection \<open>Vectors\<close>

lemma vlength_flat: "vlength (Vec3 x 0 z) = sqrt (x * x + z * z)"
  by (simp add: vlength_def lengthSq_def)

lemma horizontalDistance_Vec3: "horizontalDistance (Vec3 x y z) = sqrt (x * x + z * z)"
  by (simp add: horizontalDistance_def setY_def vlength_flat)

lemma horizontalDistance_eq: "horizontalDistance p = sqrt (vx p * vx p + vz p * vz p)"
  by (cases p) (simp add: horizontalDistance_Vec3)

lemma setLength_flat:
  assumes "0 < sqrt (x * x + z * z)"
  shows "setLength (Vec3 x 0 z) l =
         Vec3 (x * l / sqrt (x * x + z * z)) 0 (z * l / sqrt (x * x + z * z))"
  using assms
  by (simp add: setLength_def normalize_def divideScalar_def multiplyScalar_def vlength_flat)

lemma scale_sq:
  "(x * l / d) * (x * l / d) + (z * l / d) * (z * l / d) = (x * x + z * z) * (l * l) / (d * d)"
  for d :: real
  by (simp add: add_divide_distrib algebra_simps)

lemma sqrt_self_sq: "sqrt (x * x + z * z) * sqrt (x * x + z * z) = x * x + z * z"
  by (metis abs_of_nonneg real_sqrt_mult_self add_nonneg_nonneg zero_le_square)

lemma vlength_setLength_flat:
  assumes "0 < sqrt (x * x + z * z)" "0 \<le> l"
  shows "vlength (setLength (Vec3 x 0 z) l) = l"
proof -
  let ?d = "sqrt (x * x + z * z)"
  have "(x * l / ?d) * (x * l / ?d) + (z * l / ?d) * (z * l / ?d)
        = (x * x + z * z) * (l * l) / (?d * ?d)"
    by (rule scale_sq)
  also have "\<dots> = l * l"
  proof -
    have nz: "x * x + z * z \<noteq> 0" using assms(1) by auto
    show ?thesis unfolding sqrt_self_sq using nz by simp
  qed
  finally have "sqrt ((x * l / ?d) * (x * l / ?d) + (z * l / ?d) * (z * l / ?d)) = l"
    using assms by simp
  then show ?thesis
    by (simp only: setLength_flat[OF assms(1)] vlength_flat)
qed

subsection \<open>Aim\<close>

lemma aimTarget_clampAimTarget:
  "aimTarget (clampAimTarget s) =
     (let x = vx (aimTarget s); z = vz (aimTarget s); d = sqrt (x * x + z * z) in
      if d < 1 / 10000 then Vec3 0 AIM_PLANE_HEIGHT MIN_AIM_DISTANCE
      else if d < MIN_AIM_DISTANCE then Vec3 (x * MIN_AIM_DISTANCE / d) AIM_PLANE_HEIGHT (z * MIN_AIM_DISTANCE / d)
      else if d > MAX_AIM_DISTANCE then Vec3 (x * MAX_AIM_DISTANCE / d) AIM_PLANE_HEIGHT (z * MAX_AIM_DISTANCE / d)
      else Vec3 x AIM_PLANE_HEIGHT z)"
proof -
  let ?x = "vx (aimTarget s)" and ?z = "vz (aimTarget s)"
  let ?d = "sqrt (?x * ?x + ?z * ?z)"
  show ?thesis
  proof (cases "?d < 1 / 10000")
    case True
    then show ?thesis
      by (simp add: clampAimTarget_def Let_def vlength_flat MIN_AIM_DISTANCE_def MAX_AIM_DISTANCE_def)
  next
    case False
    then have pos: "0 < ?d" by linarith
    show ?thesis using False
      by (simp add: clampAimTarget_def Let_def vlength_flat setLength_flat[OF pos])
  qed
qed

lemma clampAimTarget_inRange: "aimInRange (aimTarget (clampAimTarget s))"
proof -
  let ?x = "vx (aimTarget s)" and ?z = "vz (aimTarget s)"
  let ?d = "sqrt (?x * ?x + ?z * ?z)"
  show ?thesis
  proof (cases "?d < 1 / 10000")
    case True
    then show ?thesis
      by (simp add: aimTarget_clampAimTarget aimInRange_def horizontalDistance_Vec3
          MIN_AIM_DISTANCE_def MAX_AIM_DISTANCE_def)
  next
    case False
    then have pos: "0 < ?d" by linarith
    have l10: "sqrt ((?x * 10 / ?d) * (?x * 10 / ?d) + (?z * 10 / ?d) * (?z * 10 / ?d)) = 10"
      using vlength_setLength_flat[OF pos, of 10]
      by (simp only: setLength_flat[OF pos] vlength_flat)
    have l85: "sqrt ((?x * 85 / ?d) * (?x * 85 / ?d) + (?z * 85 / ?d) * (?z * 85 / ?d)) = 85"
      using vlength_setLength_flat[OF pos, of 85]
      by (simp only: setLength_flat[OF pos] vlength_flat)
    show ?thesis using False l10 l85
      by (simp add: aimTarget_clampAimTarget aimInRange_def horizontalDistance_Vec3 Let_def
          MIN_AIM_DISTANCE_def MAX_AIM_DISTANCE_def)
  qed
qed

lemma aimTarget_orientTurretTowards [simp]:
  "aimTarget (orientTurretTowards t s) = aimTarget s"
  by (simp add: orientTurretTowards_def Let_def split: option.splits)

lemma setAimTargetFromPoint_inRange:
  "machine s \<noteq> None \<Longrightarrow> aimInRange (aimTarget (setAimTargetFromPoint p s))"
  by (auto simp add: setAimTargetFromPoint_def Let_def clampAimTarget_inRange)

lemma updateKeyboardAim_inRange:
  "aimTarget (updateKeyboardAim dt s) = aimTarget s \<or> aimInRange (aimTarget (updateKeyboardAim dt s))"
  by (simp add: updateKeyboardAim_def Let_def clampAimTarget_inRange)

lemma updateAimFromPointer_inRange:
  "aimTarget (updateAimFromPointer hit s) = aimTarget s \<or> aimInRange (aimTarget (updateAimFromPointer hit s))"
  by (auto simp add: updateAimFromPointer_def setAimTargetFromPoint_inRange split: option.splits)

lemma setAimTargetFromPoint_far:
  assumes "machine s \<noteq> None" "horizontalDistance p = 200"
  shows "aimTarget (setAimTargetFromPoint p s) = Vec3 (vx p * 85 / 200) AIM_PLANE_HEIGHT (vz p * 85 / 200)"
  using assms
  by (auto simp add: setAimTargetFromPoint_def Let_def aimTarget_clampAimTarget setY_def
      horizontalDistance_eq MIN_AIM_DISTANCE_def MAX_AIM_DISTANCE_def)

lemma setAimTargetFromPoint_near:
  assumes "machine s \<noteq> None" "horizontalDistance p < 1 / 10000"
  shows "aimTarget (setAimTargetFromPoint p s) = Vec3 0 AIM_PLANE_HEIGHT MIN_AIM_DISTANCE"
  using assms
  by (auto simp add: setAimTargetFromPoint_def Let_def aimTarget_clampAimTarget setY_def
      horizontalDistance_eq)

lemma sqrt_le_iff_sq: "0 \<le> y \<Longrightarrow> (sqrt x \<le> y) = (x \<le> y * y)"
  by (metis abs_of_nonneg real_sqrt_abs2 real_sqrt_le_iff)

lemma sqrt_less_iff_sq: "0 \<le> y \<Longrightarrow> (sqrt x < y) = (x < y * y)"
  by (metis abs_of_nonneg real_sqrt_abs2 real_sqrt_less_iff)

lemma sqrt_eq_iff_sq: "0 \<le> y \<Longrightarrow> (sqrt x = y) = (x = y * y)"
  by (metis abs_of_nonneg real_sqrt_abs2 real_sqrt_eq_iff)

text \<open>
  C6. After an aim update the aim target lies on the aim plane at a horizontal
  distance between \<open>MIN_AIM_DISTANCE\<close> (10) and \<open>MAX_AIM_DISTANCE\<close> (85) from the
  origin: after \<open>setAimTargetFromPoint\<close> whenever a machine is built, after
  \<open>updateKeyboardAim\<close> whenever a key is held, and both the keyboard and the
  pointer update otherwise leave the target as it was. A point at horizontal
  distance 200 is stored scaled by 85/200, at distance exactly 85 in the same
  direction; a point closer than 0.0001 to the axis is replaced by
  \<open>(0, AIM_PLANE_HEIGHT, MIN_AIM_DISTANCE)\<close>.
\<close>

theorem C6_aim_target_clamped:
  "(machine s \<noteq> None \<longrightarrow> aimInRange (aimTarget (setAimTargetFromPoint p s)))
   \<and> (\<not> selectionActive s \<and> machine s \<noteq> None
        \<and> (right (aimInputState s) \<noteq> left (aimInputState s)
             \<or> up (aimInputState s) \<noteq> down (aimInputState s))
        \<longrightarrow> aimInRange (aimTarget (updateKeyboardAim dt s)))
   \<and> (aimTarget (updateKeyboardAim dt s) = aimTarget s
        \<or> aimInRange (aimTarget (updateKeyboardAim dt s)))
   \<and> (aimTarget (updateAimFromPointer hit s) = aimTarget s
        \<or> aimInRange (aimTarget (updateAimFromPointer hit s)))
   \<and> (machine s \<noteq> None \<and> horizontalDistance p = 200
        \<longrightarrow> aimTarget (setAimTargetFromPoint p s)
              = Vec3 (vx p * 85 / 200) AIM_PLANE_HEIGHT (vz p * 85 / 200)
            \<and> horizontalDistance (aimTarget (setAimTargetFromPoint p s)) = MAX_AIM_DISTANCE)
   \<and> (machine s \<noteq> None \<and> horizontalDistance q < 1 / 10000
        \<longrightarrow> aimTarget (setAimTargetFromPoint q s) = Vec3 0 AIM_PLANE_HEIGHT MIN_AIM_DISTANCE)"
proof -
  have kb: "aimInRange (aimTarget (updateKeyboardAim dt s))"
    if "\<not> selectionActive s" "machine s \<noteq> None"
       "right (aimInputState s) \<noteq> left (aimInputState s)
        \<or> up (aimInputState s) \<noteq> down (aimInputState s)"
    using that
    by (auto simp add: updateKeyboardAim_def Let_def clampAimTarget_inRange lengthSq_def)
  have far: "horizontalDistance (aimTarget (setAimTargetFromPoint p s)) = MAX_AIM_DISTANCE"
    if m: "machine s \<noteq> None" and d: "horizontalDistance p = 200"
  proof -
    have "(vx p * 85 / 200) * (vx p * 85 / 200) + (vz p * 85 / 200) * (vz p * 85 / 200)
          = (vx p * vx p + vz p * vz p) * (85 * 85) / (200 * 200)"
      by (rule scale_sq)
    moreover have "vx p * vx p + vz p * vz p = 200 * 200"
      using d by (simp add: horizontalDistance_eq sqrt_eq_iff_sq)
    ultimately show ?thesis
      by (simp add: setAimTargetFromPoint_far[OF m d] horizontalDistance_Vec3 sqrt_eq_iff_sq
          MAX_AIM_DISTANCE_def)
  qed
  show ?thesis
    using kb far setAimTargetFromPoint_inRange updateKeyboardAim_inRange
      updateAimFromPointer_inRange setAimTargetFromPoint_far setAimTargetFromPoint_near
    by blast
qed

theorem C6_aim_target_clamped_witness:
  "machine demoKeySim \<noteq> None \<and> \<not> selectionActive demoKeySim
   \<and> up (aimInputState demoKeySim) \<noteq> down (aimInputState demoKeySim)
   \<and> horizontalDistance (Vec3 200 7 0) = 200 \<and> horizontalDistance (Vec3 0 3 0) < 1 / 10000
   \<and> aimInRange (aimTarget (updateKeyboardAim (33 / 1000) demoKeySim))
   \<and> aimTarget (setAimTargetFromPoint (Vec3 200 7 0) demoKeySim) = Vec3 85 (24 / 10) 0
   \<and> aimTarget (setAimTargetFromPoint (Vec3 0 3 0) demoKeySim) = Vec3 0 (24 / 10) 10"
proof -
  have m: "machine demoKeySim \<noteq> None" "\<not> selectionActive demoKeySim"
    "up (aimInputState demoKeySim) \<noteq> down (aimInputState demoKeySim)"
    by (simp_all add: demoKeySim_def demoSim_def)
  have d: "horizontalDistance (Vec3 200 7 0) = 200" "horizontalDistance (Vec3 0 3 0) < 1 / 10000"
    by (simp_all add: horizontalDistance_Vec3 sqrt_eq_iff_sq)
  show ?thesis
    using m d
      C6_aim_target_clamped[of demoKeySim "Vec3 200 7 0" "33 / 1000" None "Vec3 0 3 0"]
    by (simp add: AIM_PLANE_HEIGHT_def MIN_AIM_DISTANCE_def)
qed

subsection \<open>Breach, shield and death\<close>

lemma killPlayer_dead: "gameState s = Dead \<Longrightarrow> killPlayer reason s = s"
  by (simp add: killPlayer_def)

lemma gameState_killPlayer: "gameState (killPlayer reason s) = Dead"
  by (simp add: killPlayer_def Let_def submitScore_def setStatus_def pushBridgeStats_def)

lemma killPlayer_playing:
  "gameState s = Playing \<Longrightarrow>
     submittedScores (killPlayer reason s) = submittedScores s @ [\<lfloor>score s\<rfloor>]
     \<and> statusMessage (killPlayer reason s) = BaseDestroyed reason
     \<and> bridgeCalls (killPlayer reason s)
         = bridgeCalls s @
           [BridgeStats (wave s) \<lfloor>score s\<rfloor> (BaseDestroyed reason) (powerLabels s)
              (int (length (enemies s)) + enemiesToSpawn s),
            GameOverFlag True]"
  by (simp add: killPlayer_def Let_def submitScore_def setStatus_def pushBridgeStats_def
      powerLabels_def)

lemma enemyStep_far:
  assumes "i < length (enemies s)"
    and "ENEMY_TARGET_RADIUS < horizontalDistance (enemyPos (heap s (enemies s ! i)))"
  shows "enemyStep dt i s =
           (False, s\<lparr> heap := (heap s)(enemies s ! i :=
                       steerEnemy dt (elapsedTime s) (heap s (enemies s ! i))) \<rparr>)"
  using assms by (simp add: enemyStep_def Let_def horizontalDistance_def vlength_def)

lemma enemyStep_shield:
  assumes "i < length (enemies s)"
    and "horizontalDistance (enemyPos (heap s (enemies s ! i))) \<le> ENEMY_TARGET_RADIUS"
    and "0 < shieldCharges s"
  shows "enemyStep dt i s =
           (False, pushBridgeStats (setStatus ShieldAbsorbed
              (s\<lparr> heap := (heap s)(enemies s ! i :=
                       steerEnemy dt (elapsedTime s) (heap s (enemies s ! i))),
                  shieldCharges := shieldCharges s - 1,
                  enemies := removeAt i (enemies s) \<rparr>)))"
  using assms by (simp add: enemyStep_def Let_def horizontalDistance_def vlength_def)

lemma enemyStep_kill:
  assumes "i < length (enemies s)"
    and "horizontalDistance (enemyPos (heap s (enemies s ! i))) \<le> ENEMY_TARGET_RADIUS"
    and "shieldCharges s \<le> 0"
  shows "enemyStep dt i s =
           (True, killPlayer ''breach''
              (s\<lparr> heap := (heap s)(enemies s ! i :=
                       steerEnemy dt (elapsedTime s) (heap s (enemies s ! i))) \<rparr>))"
  using assms by (simp add: enemyStep_def Let_def horizontalDistance_def vlength_def)

lemma removeAt_distinct: "distinct xs \<Longrightarrow> i < length xs \<Longrightarrow> xs ! i \<notin> set (removeAt i xs)"
  unfolding removeAt_def
  by (metis Cons_nth_drop_Suc append_take_drop_id distinct.simps(2) distinct_append
      disjoint_iff list.set_intros(1) set_append Un_iff)

lemma length_removeAt: "i < length xs \<Longrightarrow> length (removeAt i xs) = length xs - 1"
  by (simp add: removeAt_def)

text \<open>
  C3. When the loop of \<open>updateEnemies\<close> reaches an enemy whose horizontal
  distance to the origin is at most \<open>ENEMY_TARGET_RADIUS\<close> while \<open>shieldCharges\<close>
  is 1, the pass removes that enemy from \<open>enemies\<close>, sets \<open>shieldCharges\<close> to 0,
  leaves the game state as it is (no score is submitted), and the loop goes on
  with the enemies below it.
\<close>

theorem C3_shield_absorbs_breach:
  assumes "i < length (enemies s)"
    and "horizontalDistance (enemyPos (heap s (enemies s ! i))) \<le> ENEMY_TARGET_RADIUS"
    and "shieldCharges s = 1"
  shows "\<not> fst (enemyStep dt i s)
         \<and> enemies (snd (enemyStep dt i s)) = removeAt i (enemies s)
         \<and> (distinct (enemies s) \<longrightarrow> enemies s ! i \<notin> set (enemies (snd (enemyStep dt i s))))
         \<and> shieldCharges (snd (enemyStep dt i s)) = 0
         \<and> gameState (snd (enemyStep dt i s)) = gameState s
         \<and> submittedScores (snd (enemyStep dt i s)) = submittedScores s
         \<and> updateEnemiesLoop dt (Suc i) s = updateEnemiesLoop dt i (snd (enemyStep dt i s))"
proof -
  have pos: "0 < shieldCharges s" using assms(3) by simp
  note st = enemyStep_shield[OF assms(1,2) pos, of dt]
  show ?thesis
    using assms(1,3) removeAt_distinct[of "enemies s" i]
    by (simp add: st setStatus_def pushBridgeStats_def)
qed

theorem C3_shield_absorbs_breach_witness:
  "1 < length (enemies demoBreachSim)
   \<and> horizontalDistance (enemyPos (heap demoBreachSim (enemies demoBreachSim ! 1)))
       \<le> ENEMY_TARGET_RADIUS
   \<and> shieldCharges demoBreachSim = 1 \<and> distinct (enemies demoBreachSim)
   \<and> enemies (snd (enemyStep (33 / 1000) 1 demoBreachSim)) = [0]
   \<and> shieldCharges (snd (enemyStep (33 / 1000) 1 demoBreachSim)) = 0
   \<and> gameState (snd (enemyStep (33 / 1000) 1 demoBreachSim)) = Playing"
proof -
  have h: "1 < length (enemies demoBreachSim)"
    "horizontalDistance (enemyPos (heap demoBreachSim (enemies demoBreachSim ! 1)))
       \<le> ENEMY_TARGET_RADIUS"
    "shieldCharges demoBreachSim = 1" "distinct (enemies demoBreachSim)"
    by (simp_all add: demoBreachSim_def demoSim_def demoEnemy_def horizontalDistance_Vec3
        sqrt_le_iff_sq ENEMY_TARGET_RADIUS_def)
  have e: "enemies demoBreachSim = [0, 1]" "gameState demoBreachSim = Playing"
    by (simp_all add: demoBreachSim_def demoSim_def)
  show ?thesis
    using h C3_shield_absorbs_breach[OF h(1,2,3), of "33 / 1000"]
    by (simp add: e removeAt_def)
qed

text \<open>
  C4. \<open>killPlayer\<close> always ends in \<open>Dead\<close> and is idempotent: a second call
  changes nothing, and a call in a state that is already \<open>Dead\<close> returns the
  state unchanged (status, submitted scores and bridge calls included). From
  \<open>Playing\<close> it submits the floored score exactly once. A breach with no shield
  charge, met by the loop of \<open>updateEnemies\<close> while playing, calls it and stops
  the loop.
\<close>

theorem C4_killPlayer_once:
  "gameState (killPlayer reason s) = Dead
   \<and> killPlayer reason' (killPlayer reason s) = killPlayer reason s
   \<and> (gameState t = Dead \<longrightarrow> killPlayer reason t = t)
   \<and> (gameState s = Playing \<longrightarrow>
        submittedScores (killPlayer reason s) = submittedScores s @ [\<lfloor>score s\<rfloor>]
        \<and> statusMessage (killPlayer reason s) = BaseDestroyed reason
        \<and> bridgeCalls (killPlayer reason s)
            = bridgeCalls s @
              [BridgeStats (wave s) \<lfloor>score s\<rfloor> (BaseDestroyed reason) (powerLabels s)
                 (int (length (enemies s)) + enemiesToSpawn s),
               GameOverFlag True])
   \<and> (i < length (enemies s)
        \<and> horizontalDistance (enemyPos (heap s (enemies s ! i))) \<le> ENEMY_TARGET_RADIUS
        \<and> shieldCharges s = 0 \<and> gameState s = Playing \<longrightarrow>
        fst (enemyStep dt i s) \<and> gameState (snd (enemyStep dt i s)) = Dead
        \<and> submittedScores (snd (enemyStep dt i s)) = submittedScores s @ [\<lfloor>score s\<rfloor>]
        \<and> killPlayer reason' (snd (enemyStep dt i s)) = snd (enemyStep dt i s))"
proof -
  have br: "fst (enemyStep dt i s) \<and> gameState (snd (enemyStep dt i s)) = Dead
        \<and> submittedScores (snd (enemyStep dt i s)) = submittedScores s @ [\<lfloor>score s\<rfloor>]
        \<and> killPlayer reason' (snd (enemyStep dt i s)) = snd (enemyStep dt i s)"
    if a: "i < length (enemies s)"
      "horizontalDistance (enemyPos (heap s (enemies s ! i))) \<le> ENEMY_TARGET_RADIUS"
      "shieldCharges s = 0" "gameState s = Playing"
  proof -
    have le: "shieldCharges s \<le> 0" using a(3) by simp
    let ?s1 = "s\<lparr> heap := (heap s)(enemies s ! i :=
                       steerEnemy dt (elapsedTime s) (heap s (enemies s ! i))) \<rparr>"
    have p: "gameState ?s1 = Playing" using a(4) by simp
    show ?thesis
      using killPlayer_playing[OF p, of "''breach''"]
      by (simp add: enemyStep_kill[OF a(1,2) le] gameState_killPlayer killPlayer_dead)
  qed
  show ?thesis
    using br killPlayer_playing[of s reason] killPlayer_dead[of t reason]
    by (simp add: gameState_killPlayer killPlayer_dead)
qed

theorem C4_killPlayer_once_witness:
  "gameState demoDeadSim = Dead \<and> killPlayer ''breach'' demoDeadSim = demoDeadSim
   \<and> gameState (demoBreachSim\<lparr> shieldCharges := 0 \<rparr>) = Playing
   \<and> 1 < length (enemies (demoBreachSim\<lparr> shieldCharges := 0 \<rparr>))
   \<and> horizontalDistance (enemyPos (heap (demoBreachSim\<lparr> shieldCharges := 0 \<rparr>)
         (enemies (demoBreachSim\<lparr> shieldCharges := 0 \<rparr>) ! 1))) \<le> ENEMY_TARGET_RADIUS
   \<and> shieldCharges (demoBreachSim\<lparr> shieldCharges := 0 \<rparr>) = 0
   \<and> gameState (snd (enemyStep (33 / 1000) 1 (demoBreachSim\<lparr> shieldCharges := 0 \<rparr>))) = Dead
   \<and> submittedScores (snd (enemyStep (33 / 1000) 1 (demoBreachSim\<lparr> shieldCharges := 0 \<rparr>))) = [0]
   \<and> submittedScores (killPlayer ''breach'' (demoBreachSim\<lparr> shieldCharges := 0 \<rparr>)) = [0]"
proof -
  let ?s = "demoBreachSim\<lparr> shieldCharges := 0 \<rparr>"
  have h: "gameState demoDeadSim = Dead" "gameState ?s = Playing" "1 < length (enemies ?s)"
    "horizontalDistance (enemyPos (heap ?s (enemies ?s ! 1))) \<le> ENEMY_TARGET_RADIUS"
    "shieldCharges ?s = 0"
    by (simp_all add: demoDeadSim_def demoBreachSim_def demoSim_def demoEnemy_def
        horizontalDistance_Vec3 sqrt_le_iff_sq ENEMY_TARGET_RADIUS_def)
  have v: "submittedScores ?s = []" "score ?s = 0"
    by (simp_all add: demoBreachSim_def demoSim_def)
  show ?thesis
    using h C4_killPlayer_once[of "''breach''" ?s "''breach''" demoDeadSim 1 "33 / 1000"]
    by (simp add: v)
qed

text \<open>
  C10. The breach test of \<open>updateEnemies\<close> reads the horizontal distance the
  enemy has before it is moved. An enemy that starts a pass outside
  \<open>ENEMY_TARGET_RADIUS\<close> and is moved inside it by that pass is only moved:
  enemies, shield charges and game state stay as they are. The next pass over
  it handles the breach: a shield charge is consumed and the enemy removed, or
  with no charge left the player is killed.
\<close>

theorem C10_breach_uses_position_before_move:
  assumes "i < length (enemies s)"
    and "ENEMY_TARGET_RADIUS < horizontalDistance (enemyPos (heap s (enemies s ! i)))"
    and "horizontalDistance (enemyPos (steerEnemy dt (elapsedTime s) (heap s (enemies s ! i))))
           \<le> ENEMY_TARGET_RADIUS"
  shows "\<not> fst (enemyStep dt i s)
         \<and> snd (enemyStep dt i s)
             = s\<lparr> heap := (heap s)(enemies s ! i :=
                     steerEnemy dt (elapsedTime s) (heap s (enemies s ! i))) \<rparr>
         \<and> enemies (snd (enemyStep dt i s)) = enemies s
         \<and> shieldCharges (snd (enemyStep dt i s)) = shieldCharges s
         \<and> gameState (snd (enemyStep dt i s)) = gameState s
         \<and> (0 < shieldCharges s \<longrightarrow>
              \<not> fst (enemyStep dt' i (snd (enemyStep dt i s)))
              \<and> enemies (snd (enemyStep dt' i (snd (enemyStep dt i s)))) = removeAt i (enemies s)
              \<and> shieldCharges (snd (enemyStep dt' i (snd (enemyStep dt i s))))
                  = shieldCharges s - 1)
         \<and> (shieldCharges s \<le> 0 \<longrightarrow>
              fst (enemyStep dt' i (snd (enemyStep dt i s)))
              \<and> gameState (snd (enemyStep dt' i (snd (enemyStep dt i s)))) = Dead)"
proof -
  let ?r = "enemies s ! i"
  let ?s1 = "s\<lparr> heap := (heap s)(?r := steerEnemy dt (elapsedTime s) (heap s ?r)) \<rparr>"
  have first: "enemyStep dt i s = (False, ?s1)"
    by (rule enemyStep_far[OF assms(1,2)])
  have i1: "i < length (enemies ?s1)" using assms(1) by simp
  have near: "horizontalDistance (enemyPos (heap ?s1 (enemies ?s1 ! i))) \<le> ENEMY_TARGET_RADIUS"
    using assms(3) by simp
  have sh: "\<not> fst (enemyStep dt' i ?s1)
            \<and> enemies (snd (enemyStep dt' i ?s1)) = removeAt i (enemies s)
            \<and> shieldCharges (snd (enemyStep dt' i ?s1)) = shieldCharges s - 1"
    if "0 < shieldCharges s"
  proof -
    have "0 < shieldCharges ?s1" using that by simp
    from enemyStep_shield[OF i1 near this, of dt'] show ?thesis
      by (simp add: setStatus_def pushBridgeStats_def)
  qed
  have kl: "fst (enemyStep dt' i ?s1) \<and> gameState (snd (enemyStep dt' i ?s1)) = Dead"
    if "shieldCharges s \<le> 0"
  proof -
    have "shieldCharges ?s1 \<le> 0" using that by simp
    from enemyStep_kill[OF i1 near this, of dt'] show ?thesis
      by (simp add: gameState_killPlayer)
  qed
  show ?thesis using sh kl by (simp add: first)
qed

lemma sqrt_demo: "sqrt (160801 / 10000) = 401 / 100"
  by (rule real_sqrt_unique) (simp_all add: power2_eq_square)

lemma steer_demo:
  "steerEnemy (33 / 1000) 0 (demoEnemy (401 / 100) 0 3)
     = (demoEnemy (401 / 100) 0 3)\<lparr> velocity := Vec3 (- (9504 / 10000)) 0 0,
          enemyPos := Vec3 (39786368 / 10000000) 0 0 \<rparr>"
  by (simp add: steerEnemy_def demoEnemy_def Let_def setY_def lengthSq_def normalize_def
      vlength_def divideScalar_def multiplyScalar_def lerp_def addScaledVector_def sqrt_demo)

theorem C10_breach_uses_position_before_move_witness:
  "0 < length (enemies demoCrossSim)
   \<and> ENEMY_TARGET_RADIUS
       < horizontalDistance (enemyPos (heap demoCrossSim (enemies demoCrossSim ! 0)))
   \<and> horizontalDistance (enemyPos (steerEnemy (33 / 1000) (elapsedTime demoCrossSim)
         (heap demoCrossSim (enemies demoCrossSim ! 0)))) \<le> ENEMY_TARGET_RADIUS
   \<and> shieldCharges demoCrossSim \<le> 0
   \<and> gameState (snd (enemyStep (33 / 1000) 0 demoCrossSim)) = Playing
   \<and> gameState (snd (enemyStep (33 / 1000) 0 (snd (enemyStep (33 / 1000) 0 demoCrossSim))))
       = Dead"
proof -
  have e: "enemies demoCrossSim = [0]" "heap demoCrossSim 0 = demoEnemy (401 / 100) 0 3"
    "elapsedTime demoCrossSim = 0" "shieldCharges demoCrossSim = 0"
    "gameState demoCrossSim = Playing"
    by (simp_all add: demoCrossSim_def demoSim_def)
  have h1: "0 < length (enemies demoCrossSim)" by (simp add: e)
  have h2: "ENEMY_TARGET_RADIUS
       < horizontalDistance (enemyPos (heap demoCrossSim (enemies demoCrossSim ! 0)))"
    by (simp add: e demoEnemy_def horizontalDistance_Vec3 ENEMY_TARGET_RADIUS_def sqrt_demo)
  have h3: "horizontalDistance (enemyPos (steerEnemy (33 / 1000) (elapsedTime demoCrossSim)
         (heap demoCrossSim (enemies demoCrossSim ! 0)))) \<le> ENEMY_TARGET_RADIUS"
    by (simp add: e steer_demo horizontalDistance_Vec3 ENEMY_TARGET_RADIUS_def sqrt_le_iff_sq)
  have h4: "shieldCharges demoCrossSim \<le> 0" by (simp add: e)
  note t = C10_breach_uses_position_before_move[OF h1 h2 h3, of "33 / 1000"]
  have g1: "gameState (snd (enemyStep (33 / 1000) 0 demoCrossSim)) = Playing"
    using t e(5) by metis
  have g2: "gameState (snd (enemyStep (33 / 1000) 0 (snd (enemyStep (33 / 1000) 0 demoCrossSim))))
       = Dead"
    using t h4 by blast
  show ?thesis
    using h1 h2 h3 h4 g1 g2 by blast
qed

subsection \<open>Power-up drops\<close>

lemma rollProbI:
  "0 \<le> a \<Longrightarrow> a \<le> b \<Longrightarrow> b \<le> 1 \<Longrightarrow> {r. 0 \<le> r \<and> r < 1 \<and> ev r} = {a..<b} \<Longrightarrow> p = b - a
   \<Longrightarrow> rollProb ev p"
  unfolding rollProb_def by blast

lemma rollProb_unique:
  assumes "rollProb ev p" and "{r. 0 \<le> r \<and> r < 1 \<and> ev r} = {a..<b}" and "a < b"
  shows "p = b - a"
proof -
  from assms(1) obtain a' b' where
    ab: "{r. 0 \<le> r \<and> r < 1 \<and> ev r} = {a'..<b'}" "p = b' - a'"
    unfolding rollProb_def by blast
  from ab(1) assms(2) have "{a'..<b'} = {a..<b}" by simp
  with assms(3) have "a' = a \<and> b' = b" by (simp add: Ico_eq_Ico)
  with ab(2) show ?thesis by simp
qed

lemma explosive_rolls:
  "{r. 0 \<le> r \<and> r < 1 \<and> powerUpTypeOfRoll r = Explosive} = {66 / 100..<1}"
  by (auto simp add: powerUpTypeOfRoll_def split: if_splits)

lemma shield_rolls:
  "{r. 0 \<le> r \<and> r < 1 \<and> powerUpTypeOfRoll r = Shield} = {33 / 100..<66 / 100}"
  by (auto simp add: powerUpTypeOfRoll_def split: if_splits)

lemma rapidFire_rolls:
  "{r. 0 \<le> r \<and> r < 1 \<and> powerUpTypeOfRoll r = RapidFire} = {0..<33 / 100}"
  by (auto simp add: powerUpTypeOfRoll_def split: if_splits)

lemma drop_rolls:
  "{r. 0 \<le> r \<and> r < 1 \<and> r < POWER_UP_DROP_CHANCE} = {0..<22 / 100}"
  by (auto simp add: POWER_UP_DROP_CHANCE_def)

lemma powerUps_handleEnemyDeath:
  "powerUps (handleEnemyDeath ref s) =
     (if rng s (rngPos s) < POWER_UP_DROP_CHANCE
      then powerUps s @
           [\<lparr> powerPos = Vec3 (vx (enemyPos (heap s ref))) (15 / 10) (vz (enemyPos (heap s ref))),
              powerType = powerUpTypeOfRoll (rng s (rngPos s + 1)),
              timeToLive = POWER_UP_LIFETIME \<rparr>]
      else powerUps s)"
  by (simp add: handleEnemyDeath_def Let_def recordKillReward_def randomValue_def
      advanceRandom_def spawnPowerUp_def pushBridgeStats_def setY_def)

text \<open>
  C8, as the code has it. \<open>handleEnemyDeath\<close> drops a power-up exactly when its
  roll is below \<open>POWER_UP_DROP_CHANCE\<close>, at the enemy's horizontal position and
  at height 1.5; the kind is read from the next roll. With rolls uniform in
  [0, 1) the probability of an event is the length of the interval of rolls
  that select it (\<open>rollProb\<close>): a drop has probability 0.22, rapid-fire 0.33,
  shield 0.33 and explosive 0.34.
\<close>

theorem C8_power_up_drop:
  "powerUps (handleEnemyDeath ref s) =
     (if rng s (rngPos s) < POWER_UP_DROP_CHANCE
      then powerUps s @
           [\<lparr> powerPos = Vec3 (vx (enemyPos (heap s ref))) (15 / 10) (vz (enemyPos (heap s ref))),
              powerType = powerUpTypeOfRoll (rng s (rngPos s + 1)),
              timeToLive = POWER_UP_LIFETIME \<rparr>]
      else powerUps s)
   \<and> rollProb (\<lambda>r. r < POWER_UP_DROP_CHANCE) (22 / 100)
   \<and> rollProb (\<lambda>r. powerUpTypeOfRoll r = RapidFire) (33 / 100)
   \<and> rollProb (\<lambda>r. powerUpTypeOfRoll r = Shield) (33 / 100)
   \<and> rollProb (\<lambda>r. powerUpTypeOfRoll r = Explosive) (34 / 100)"
proof -
  have d: "rollProb (\<lambda>r. r < POWER_UP_DROP_CHANCE) (22 / 100)"
    by (rule rollProbI[OF _ _ _ drop_rolls]) simp_all
  have r: "rollProb (\<lambda>r. powerUpTypeOfRoll r = RapidFire) (33 / 100)"
    by (rule rollProbI[OF _ _ _ rapidFire_rolls]) simp_all
  have h: "rollProb (\<lambda>r. powerUpTypeOfRoll r = Shield) (33 / 100)"
    by (rule rollProbI[OF _ _ _ shield_rolls]) simp_all
  have e: "rollProb (\<lambda>r. powerUpTypeOfRoll r = Explosive) (34 / 100)"
    by (rule rollProbI[OF _ _ _ explosive_rolls]) simp_all
  show ?thesis using d r h e powerUps_handleEnemyDeath by blast
qed

text \<open>
  The kinds are not chosen with probability 1/3 each: the rolls that give
  \<open>Explosive\<close> are those from 0.66 on, so 0.665, below 2/3, is one of them; and
  the power-up of an enemy that dies at height 0 is placed at height 1.5.
\<close>

theorem C8_not_uniform_counterexample:
  "\<not> rollProb (\<lambda>r. powerUpTypeOfRoll r = Explosive) (1 / 3)
   \<and> powerUpTypeOfRoll (665 / 1000) = Explosive
   \<and> enemyPos (heap demoDropSim 0) = Vec3 50 0 0
   \<and> powerUps (handleEnemyDeath 0 demoDropSim)
       = [\<lparr> powerPos = Vec3 50 (15 / 10) 0, powerType = Explosive, timeToLive = 12 \<rparr>]"
proof -
  have "\<not> rollProb (\<lambda>r. powerUpTypeOfRoll r = Explosive) (1 / 3)"
  proof
    assume "rollProb (\<lambda>r. powerUpTypeOfRoll r = Explosive) (1 / 3)"
    from rollProb_unique[OF this explosive_rolls] show False by simp
  qed
  moreover have "powerUpTypeOfRoll (665 / 1000) = Explosive"
    by (simp add: powerUpTypeOfRoll_def)
  moreover have "enemyPos (heap demoDropSim 0) = Vec3 50 0 0"
    by (simp add: demoDropSim_def demoSim_def demoEnemy_def)
  moreover have "powerUps (handleEnemyDeath 0 demoDropSim)
       = [\<lparr> powerPos = Vec3 50 (15 / 10) 0, powerType = Explosive, timeToLive = 12 \<rparr>]"
    by (simp add: powerUps_handleEnemyDeath demoDropSim_def demoSim_def demoEnemy_def
        powerUpTypeOfRoll_def POWER_UP_DROP_CHANCE_def POWER_UP_LIFETIME_def)
  ultimately show ?thesis by blast
qed

subsection \<open>Area damage\<close>

lemma handleEnemyDeath_fields:
  "heap (handleEnemyDeath ref s) = heap s"
  "score (handleEnemyDeath ref s) = score s + 10"
  "wave (handleEnemyDeath ref s) = wave s"
  "killRewards (handleEnemyDeath ref s)
     = killRewards s @ [TOKENS_PER_KILL + \<lfloor>real (wave s) * (5 / 10)\<rfloor>]"
  "enemies (handleEnemyDeath ref s) = spliceEnemy ref (enemies s)"
  "bullets (handleEnemyDeath ref s) = bullets s"
  "gameState (handleEnemyDeath ref s) = gameState s"
  "shieldCharges (handleEnemyDeath ref s) = shieldCharges s"
  "explosiveTimer (handleEnemyDeath ref s) = explosiveTimer s"
  by (simp_all add: handleEnemyDeath_def Let_def recordKillReward_def randomValue_def
      advanceRandom_def spawnPowerUp_def pushBridgeStats_def)

lemma explodeKill_fields:
  "heap (explodeKill ref s) = (heap s)(ref := (heap s ref)\<lparr> health := 0 \<rparr>)"
  "score (explodeKill ref s) = score s + 10"
  "wave (explodeKill ref s) = wave s"
  "killRewards (explodeKill ref s)
     = killRewards s @ [TOKENS_PER_KILL + \<lfloor>real (wave s) * (5 / 10)\<rfloor>]"
  "enemies (explodeKill ref s) = spliceEnemy ref (enemies s)"
  "bullets (explodeKill ref s) = bullets s"
  by (simp_all add: explodeKill_def handleEnemyDeath_fields)

lemma powerUps_explodeKill: "\<exists>ys. powerUps (explodeKill ref s) = powerUps s @ ys"
  by (simp add: explodeKill_def powerUps_handleEnemyDeath)

lemma inBlast_explodeKill [simp]: "inBlast (explodeKill ref s) position x = inBlast s position x"
  by (simp add: inBlast_def explodeKill_fields)

lemma explodeLoop_Cons:
  "explodeLoop position (ref # rest) s =
     explodeLoop position rest (if inBlast s position ref then explodeKill ref s else s)"
  by (simp add: inBlast_def explodeKill_def)

lemma explodeLoop_fold:
  "explodeLoop position rs s
     = foldl (\<lambda>t ref. explodeKill ref t) s (filter (inBlast s position) rs)"
proof (induction rs arbitrary: s)
  case Nil
  show ?case by simp
next
  case (Cons r rs)
  have same: "inBlast (explodeKill r s) position = inBlast s position"
    by (rule ext) simp
  show ?case
    by (simp only: explodeLoop_Cons Cons.IH) (simp add: same)
qed

lemma explodeLoop_heap:
  "heap (explodeLoop position rs s) x
     = (if x \<in> set rs \<and> inBlast s position x then (heap s x)\<lparr> health := 0 \<rparr> else heap s x)"
proof (induction rs arbitrary: s)
  case Nil
  show ?case by simp
next
  case (Cons r rs)
  show ?case
    by (simp only: explodeLoop_Cons Cons.IH) (auto simp add: explodeKill_fields)
qed

lemma explodeLoop_score:
  "score (explodeLoop position rs s)
     = score s + 10 * real (length (filter (inBlast s position) rs))"
proof (induction rs arbitrary: s)
  case Nil
  show ?case by simp
next
  case (Cons r rs)
  have same: "inBlast (explodeKill r s) position = inBlast s position"
    by (rule ext) simp
  show ?case
    by (simp only: explodeLoop_Cons Cons.IH) (simp add: explodeKill_fields same)
qed

lemma explodeLoop_wave: "wave (explodeLoop position rs s) = wave s"
proof (induction rs arbitrary: s)
  case Nil
  show ?case by simp
next
  case (Cons r rs)
  show ?case
    by (simp only: explodeLoop_Cons Cons.IH) (simp add: explodeKill_fields)
qed

lemma explodeLoop_bullets: "bullets (explodeLoop position rs s) = bullets s"
proof (induction rs arbitrary: s)
  case Nil
  show ?case by simp
next
  case (Cons r rs)
  show ?case
    by (simp only: explodeLoop_Cons Cons.IH) (simp add: explodeKill_fields)
qed

lemma explodeLoop_killRewards:
  "killRewards (explodeLoop position rs s)
     = killRewards s @ replicate (length (filter (inBlast s position) rs))
                         (TOKENS_PER_KILL + \<lfloor>real (wave s) * (5 / 10)\<rfloor>)"
proof (induction rs arbitrary: s)
  case Nil
  show ?case by simp
next
  case (Cons r rs)
  have same: "inBlast (explodeKill r s) position = inBlast s position"
    by (rule ext) simp
  show ?case
    by (simp only: explodeLoop_Cons Cons.IH)
       (simp add: explodeKill_fields same replicate_app_Cons_same)
qed

lemma explodeLoop_powerUps: "\<exists>ys. powerUps (explodeLoop position rs s) = powerUps s @ ys"
proof (induction rs arbitrary: s)
  case Nil
  show ?case by simp
next
  case (Cons r rs)
  let ?s' = "if inBlast s position r then explodeKill r s else s"
  have "\<exists>ys. powerUps ?s' = powerUps s @ ys"
    using powerUps_explodeKill[of r s] by (cases "inBlast s position r") simp_all
  then obtain ys where ys: "powerUps ?s' = powerUps s @ ys" by blast
  obtain zs where zs: "powerUps (explodeLoop position rs ?s') = powerUps ?s' @ zs"
    using Cons.IH[of ?s'] by blast
  show ?case
    by (simp only: explodeLoop_Cons zs ys) simp
qed

lemma explodeLoop_enemies:
  assumes "enemies s = pre @ rs" and "\<forall>x \<in> set pre. \<not> inBlast s position x"
  shows "enemies (explodeLoop position rs s)
           = pre @ filter (\<lambda>ref. \<not> inBlast s position ref) rs"
  using assms
proof (induction rs arbitrary: s pre)
  case Nil
  then show ?case by simp
next
  case (Cons r rs)
  show ?case
  proof (cases "inBlast s position r")
    case True
    then have notin: "r \<notin> set pre" using Cons.prems(2) by blast
    have en: "enemies (explodeKill r s) = pre @ rs"
      using notin by (simp add: explodeKill_fields Cons.prems(1) spliceEnemy_def remove1_append)
    have pre': "\<forall>x \<in> set pre. \<not> inBlast (explodeKill r s) position x"
      using Cons.prems(2) by simp
    have same: "inBlast (explodeKill r s) position = inBlast s position"
      by (rule ext) simp
    show ?thesis
      using Cons.IH[OF en pre'] True by (simp only: explodeLoop_Cons) (simp add: same)
  next
    case False
    have en: "enemies s = (pre @ [r]) @ rs" using Cons.prems(1) by simp
    have pre': "\<forall>x \<in> set (pre @ [r]). \<not> inBlast s position x"
      using Cons.prems(2) False by simp
    show ?thesis
      using Cons.IH[OF en pre'] False by (simp only: explodeLoop_Cons) simp
  qed
qed

text \<open>
  C5. \<open>explodeAt\<close> applies to every enemy of the array whose distance to the
  position is at most \<open>EXPLOSIVE_RADIUS\<close>, in array order, the body
  \<open>explodeKill\<close> (health set to 0, then \<open>handleEnemyDeath\<close>: score +10, kill
  reward, power-up roll, removal) and touches no other enemy. Afterwards the
  array holds exactly the enemies outside the radius, every enemy inside it has
  health 0, the score has grown by 10 and one kill reward was recorded for each
  of them, the power-ups that existed before are all still there, unchanged
  and in place, and the bullets are untouched.
\<close>

theorem C5_explodeAt_kills_in_radius:
  "explodeAt position s
     = foldl (\<lambda>t ref. explodeKill ref t) s (filter (inBlast s position) (enemies s))
   \<and> enemies (explodeAt position s)
       = filter (\<lambda>ref. \<not> inBlast s position ref) (enemies s)
   \<and> (\<forall>ref \<in> set (enemies s). inBlast s position ref \<longrightarrow>
         health (heap (explodeAt position s) ref) = 0
         \<and> ref \<notin> set (enemies (explodeAt position s)))
   \<and> (\<forall>ref. \<not> inBlast s position ref \<longrightarrow> heap (explodeAt position s) ref = heap s ref)
   \<and> score (explodeAt position s)
       = score s + 10 * real (length (filter (inBlast s position) (enemies s)))
   \<and> killRewards (explodeAt position s)
       = killRewards s @ replicate (length (filter (inBlast s position) (enemies s)))
                           (TOKENS_PER_KILL + \<lfloor>real (wave s) * (5 / 10)\<rfloor>)
   \<and> take (length (powerUps s)) (powerUps (explodeAt position s)) = powerUps s
   \<and> bullets (explodeAt position s) = bullets s"
proof -
  have en: "enemies (explodeAt position s)
       = filter (\<lambda>ref. \<not> inBlast s position ref) (enemies s)"
    unfolding explodeAt_def
    using explodeLoop_enemies[of s "[]" "enemies s" position] by simp
  obtain ys where ys: "powerUps (explodeAt position s) = powerUps s @ ys"
    unfolding explodeAt_def using explodeLoop_powerUps by blast
  have pw: "take (length (powerUps s)) (powerUps (explodeAt position s)) = powerUps s"
    by (simp add: ys)
  have hp: "\<forall>ref \<in> set (enemies s). inBlast s position ref \<longrightarrow>
         health (heap (explodeAt position s) ref) = 0
         \<and> ref \<notin> set (enemies (explodeAt position s))"
    by (simp add: en) (simp add: explodeAt_def explodeLoop_heap)
  have sv: "\<forall>ref. \<not> inBlast s position ref \<longrightarrow> heap (explodeAt position s) ref = heap s ref"
    by (simp add: explodeAt_def explodeLoop_heap)
  show ?thesis
    using en pw hp sv
    by (simp add: explodeAt_def explodeLoop_fold[symmetric] explodeLoop_score
        explodeLoop_killRewards explodeLoop_bullets)
qed

theorem C5_explodeAt_kills_in_radius_witness:
  "set (enemies demoBlastSim) = {0, 1, 2}
   \<and> inBlast demoBlastSim (Vec3 20 0 0) 0 \<and> inBlast demoBlastSim (Vec3 20 0 0) 1
   \<and> \<not> inBlast demoBlastSim (Vec3 20 0 0) 2
   \<and> enemies (explodeAt (Vec3 20 0 0) demoBlastSim) = [2]
   \<and> health (heap demoBlastSim 1) = 5
   \<and> health (heap (explodeAt (Vec3 20 0 0) demoBlastSim) 0) = 0
   \<and> health (heap (explodeAt (Vec3 20 0 0) demoBlastSim) 1) = 0
   \<and> heap (explodeAt (Vec3 20 0 0) demoBlastSim) 2 = heap demoBlastSim 2
   \<and> score (explodeAt (Vec3 20 0 0) demoBlastSim) = 20"
proof -
  have e: "enemies demoBlastSim = [0, 1, 2]" "score demoBlastSim = 0"
    "health (heap demoBlastSim 1) = 5"
    by (simp_all add: demoBlastSim_def demoSim_def demoEnemy_def)
  have b: "inBlast demoBlastSim (Vec3 20 0 0) 0" "inBlast demoBlastSim (Vec3 20 0 0) 1"
    "\<not> inBlast demoBlastSim (Vec3 20 0 0) 2"
    by (simp_all add: inBlast_def demoBlastSim_def demoSim_def demoEnemy_def distanceTo_def
        vsub_def vlength_def lengthSq_def EXPLOSIVE_RADIUS_def sqrt_le_iff_sq)
  have b1: "inBlast demoBlastSim (Vec3 20 0 0) (Suc 0)" using b(2) by simp
  note t = C5_explodeAt_kills_in_radius[of "Vec3 20 0 0" demoBlastSim]
  note t2 = t[THEN conjunct2]
  note t3 = t2[THEN conjunct2]
  note t4 = t3[THEN conjunct2]
  note t5 = t4[THEN conjunct2]
  have en: "enemies (explodeAt (Vec3 20 0 0) demoBlastSim) = [2]"
    using t2[THEN conjunct1] by (simp add: e b b1)
  have h0: "health (heap (explodeAt (Vec3 20 0 0) demoBlastSim) 0) = 0"
    and h1: "health (heap (explodeAt (Vec3 20 0 0) demoBlastSim) 1) = 0"
    using t3[THEN conjunct1] b by (simp_all add: e)
  have h2: "heap (explodeAt (Vec3 20 0 0) demoBlastSim) 2 = heap demoBlastSim 2"
    using t4[THEN conjunct1] b(3) by blast
  have sc: "score (explodeAt (Vec3 20 0 0) demoBlastSim) = 20"
    using t5[THEN conjunct1] by (simp add: e b b1)
  have st: "set (enemies demoBlastSim) = {0, 1, 2}" by (simp add: e)
  show ?thesis
    using st b en e(3) h0 h1 h2 sc by blast
qed

subsection \<open>Bullet hits\<close>

lemma removeAt_update: "removeAt i (xs[i := x]) = removeAt i xs"
  by (simp add: removeAt_def)



lemma explodeAt_fields:
  "heap (explodeAt position s) x
     = (if x \<in> set (enemies s) \<and> inBlast s position x then (heap s x)\<lparr> health := 0 \<rparr>
        else heap s x)"
  "bullets (explodeAt position s) = bullets s"
  "enemies (explodeAt position s) = filter (\<lambda>ref. \<not> inBlast s position ref) (enemies s)"
  using explodeLoop_enemies[of s "[]" "enemies s" position]
  by (simp_all add: explodeAt_def explodeLoop_heap explodeLoop_bullets)

lemma bulletStep_hit:
  assumes "i < length (bullets s)"
    and "0 < life (bullets s ! i) - dt"
    and "find (\<lambda>r. hitTest (bulletPos (moveBullet dt (bullets s ! i))) (heap s r)) (enemies s)
           = Some ref"
  shows "bulletStep dt i s =
     (let e1 = (heap s ref)\<lparr> health := health (heap s ref)
                                 - (if explosiveTimer s > 0 then 2 else 1) \<rparr>;
          s2 = s\<lparr> bullets := (bullets s)[i := moveBullet dt (bullets s ! i)],
                  heap := (heap s)(ref := e1) \<rparr>;
          s3 = (if health e1 \<le> 0
                then if explosiveTimer s > 0
                     then explodeAt (enemyPos (heap s ref)) (handleEnemyDeath ref s2)
                     else handleEnemyDeath ref s2
                else s2)
      in s3\<lparr> bullets := removeAt i (bullets s) \<rparr>)"
proof -
  have l: "\<not> life (moveBullet dt (bullets s ! i)) \<le> 0"
    using assms(2) by (simp add: moveBullet_def)
  show ?thesis
    using assms(1) l assms(3)
    by (simp add: bulletStep_def Let_def handleEnemyDeath_fields explodeAt_fields
        removeAt_update)
qed



lemma bulletStep_hit_bullets:
  assumes "i < length (bullets s)"
    and "0 < life (bullets s ! i) - dt"
    and "find (\<lambda>r. hitTest (bulletPos (moveBullet dt (bullets s ! i))) (heap s r)) (enemies s)
           = Some ref"
  shows "bullets (bulletStep dt i s) = removeAt i (bullets s)"
  by (simp add: bulletStep_hit[OF assms] Let_def)







subsection \<open>Steps that leave the wave bookkeeping alone\<close>

lemma quietStep_refl [simp]: "quietStep s s"
  by (simp add: quietStep_def)

lemma quietStep_trans: "quietStep s t \<Longrightarrow> quietStep t u \<Longrightarrow> quietStep s u"
  by (simp add: quietStep_def)

lemma core_upd [simp]:
  "core (s\<lparr> gameState := a1 \<rparr>) = core s"
  "core (s\<lparr> selectionActive := a2 \<rparr>) = core s"
  "core (s\<lparr> selectedVariantIndex := a3 \<rparr>) = core s"
  "core (s\<lparr> muzzleIndex := a4 \<rparr>) = core s"
  "core (s\<lparr> turretYaw := a5 \<rparr>) = core s"
  "core (s\<lparr> gunPitch := a6 \<rparr>) = core s"
  "core (s\<lparr> aimTarget := a7 \<rparr>) = core s"
  "core (s\<lparr> aimDirection := a8 \<rparr>) = core s"
  "core (s\<lparr> pointer := a9 \<rparr>) = core s"
  "core (s\<lparr> aimInputState := a10 \<rparr>) = core s"
  "core (s\<lparr> fireCooldown := a11 \<rparr>) = core s"
  "core (s\<lparr> score := a12 \<rparr>) = core s"
  "core (s\<lparr> lastScoreDisplayed := a13 \<rparr>) = core s"
  "core (s\<lparr> intermission := a14 \<rparr>) = core s"
  "core (s\<lparr> spawnCooldown := a15 \<rparr>) = core s"
  "core (s\<lparr> shieldCharges := a16 \<rparr>) = core s"
  "core (s\<lparr> statusMessage := a17 \<rparr>) = core s"
  "core (s\<lparr> elapsedTime := a18 \<rparr>) = core s"
  "core (s\<lparr> bullets := a19 \<rparr>) = core s"
  "core (s\<lparr> enemies := a20 \<rparr>) = core s"
  "core (s\<lparr> heap := a21 \<rparr>) = core s"
  "core (s\<lparr> nextRef := a22 \<rparr>) = core s"
  "core (s\<lparr> powerUps := a23 \<rparr>) = core s"
  "core (s\<lparr> rapidFireTimer := a24 \<rparr>) = core s"
  "core (s\<lparr> explosiveTimer := a25 \<rparr>) = core s"
  "core (s\<lparr> submitScoreRecord := a26 \<rparr>) = core s"
  "core (s\<lparr> rng := a27 \<rparr>) = core s"
  "core (s\<lparr> rngPos := a28 \<rparr>) = core s"
  "core (s\<lparr> bridgeCalls := a29 \<rparr>) = core s"
  "core (s\<lparr> killRewards := a30 \<rparr>) = core s"
  "core (s\<lparr> submittedScores := a31 \<rparr>) = core s"
  "core (s\<lparr> newRecords := a32 \<rparr>) = core s"
  by (simp_all add: core_def)

lemma core_telemetry [simp]:
  "core (pushBridgeStats s) = core s"
  "core (setStatus m s) = core s"
  "core (setGameReadiness b s) = core s"
  "core (setActiveMachineFromGame mid s) = core s"
  "core (recordKillReward k s) = core s"
  by (simp_all add: pushBridgeStats_def setStatus_def setGameReadiness_def
      setActiveMachineFromGame_def recordKillReward_def)

lemma enemies_telemetry [simp]:
  "enemies (pushBridgeStats s) = enemies s"
  "enemies (setStatus m s) = enemies s"
  "enemies (setGameReadiness b s) = enemies s"
  "enemies (setActiveMachineFromGame mid s) = enemies s"
  "enemies (recordKillReward k s) = enemies s"
  "enemies (grantTokenBonus src amount s) = enemies s"
  by (simp_all add: pushBridgeStats_def setStatus_def setGameReadiness_def
      setActiveMachineFromGame_def recordKillReward_def grantTokenBonus_def)

lemma core_orient [simp]: "core (orientTurretTowards t s) = core s"
  by (simp add: orientTurretTowards_def Let_def split: option.splits)

lemma enemies_orient [simp]: "enemies (orientTurretTowards t s) = enemies s"
  by (simp add: orientTurretTowards_def Let_def split: option.splits)

lemma core_clamp [simp]: "core (clampAimTarget s) = core s"
  by (simp add: clampAimTarget_def Let_def)

lemma enemies_clamp [simp]: "enemies (clampAimTarget s) = enemies s"
  by (simp add: clampAimTarget_def Let_def)

lemma core_aim [simp]:
  "core (setAimTargetFromPoint p s) = core s"
  "core (updateKeyboardAim dt s) = core s"
  "core (alignTurretToNeutralPose s) = core s"
  "core (snd (handleAimKey code isDown s)) = core s"
  by (simp_all add: setAimTargetFromPoint_def updateKeyboardAim_def
      alignTurretToNeutralPose_def handleAimKey_def Let_def split: option.splits)

lemma enemies_aim [simp]:
  "enemies (setAimTargetFromPoint p s) = enemies s"
  "enemies (updateKeyboardAim dt s) = enemies s"
  "enemies (alignTurretToNeutralPose s) = enemies s"
  "enemies (snd (handleAimKey code isDown s)) = enemies s"
  by (simp_all add: setAimTargetFromPoint_def updateKeyboardAim_def
      alignTurretToNeutralPose_def handleAimKey_def Let_def split: option.splits)

lemma core_pointer [simp]: "core (updateAimFromPointer hit s) = core s"
  by (simp add: updateAimFromPointer_def split: option.splits)

lemma enemies_pointer [simp]: "enemies (updateAimFromPointer hit s) = enemies s"
  by (simp add: updateAimFromPointer_def split: option.splits)

lemma length_spliceEnemy: "length (spliceEnemy ref xs) \<le> length xs"
  by (simp add: spliceEnemy_def length_remove1)

lemma length_removeAt_le: "length (removeAt i xs) \<le> length xs"
  by (simp add: removeAt_def)

lemma core_random [simp]: "core (advanceRandom s) = core s"
  by (simp add: advanceRandom_def)

lemma enemies_random [simp]: "enemies (advanceRandom s) = enemies s"
  by (simp add: advanceRandom_def)

lemma core_basic [simp]:
  "core (spawnPowerUp p s) = core s"
  "core (spawnBullet s) = core s"
  "core (submitScore v s) = core s"
  "core (scheduleNextSpawn f s) = core s"
  by (simp_all add: spawnPowerUp_def spawnBullet_def submitScore_def scheduleNextSpawn_def
      Let_def split: option.splits)

lemma enemies_basic [simp]:
  "enemies (spawnPowerUp p s) = enemies s"
  "enemies (spawnBullet s) = enemies s"
  "enemies (submitScore v s) = enemies s"
  "enemies (scheduleNextSpawn f s) = enemies s"
  by (simp_all add: spawnPowerUp_def spawnBullet_def submitScore_def scheduleNextSpawn_def
      Let_def split: option.splits)

lemma core_killPlayer [simp]: "core (killPlayer reason s) = core s"
  by (simp add: killPlayer_def Let_def)

lemma enemies_killPlayer [simp]: "enemies (killPlayer reason s) = enemies s"
  by (simp add: killPlayer_def Let_def)

lemma core_applyPowerUp [simp]: "core (applyPowerUp pw s) = core s"
  by (cases pw) (simp_all add: applyPowerUp_def)

lemma enemies_applyPowerUp [simp]: "enemies (applyPowerUp pw s) = enemies s"
  by (cases pw) (simp_all add: applyPowerUp_def)

lemma core_handleEnemyDeath [simp]: "core (handleEnemyDeath ref s) = core s"
  by (simp add: handleEnemyDeath_def Let_def)

lemma quiet_handleEnemyDeath: "quietStep s (handleEnemyDeath ref s)"
  by (simp add: quietStep_def handleEnemyDeath_fields length_spliceEnemy)

lemma quiet_explodeLoop: "quietStep s (explodeLoop p rs s)"
proof (induction rs arbitrary: s)
  case Nil
  show ?case by simp
next
  case (Cons r rs)
  let ?s' = "if inBlast s p r then explodeKill r s else s"
  have "quietStep s ?s'"
    by (simp add: quietStep_def explodeKill_def handleEnemyDeath_fields length_spliceEnemy)
  from quietStep_trans[OF this Cons.IH[of ?s']] show ?case
    by (simp only: explodeLoop_Cons)
qed

lemma quiet_explodeAt: "quietStep s (explodeAt p s)"
  by (simp add: explodeAt_def quiet_explodeLoop)

lemma quietStep_upd:
  "quietStep s t \<Longrightarrow> quietStep s (t\<lparr> bullets := bs \<rparr>)"
  "quietStep s t \<Longrightarrow> quietStep s (t\<lparr> powerUps := ps \<rparr>)"
  "quietStep (s\<lparr> bullets := bs \<rparr>) t \<Longrightarrow> quietStep s t"
  "quietStep (s\<lparr> powerUps := ps \<rparr>) t \<Longrightarrow> quietStep s t"
  "quietStep (s\<lparr> heap := h \<rparr>) t \<Longrightarrow> quietStep s t"
  by (simp_all add: quietStep_def)

lemma quiet_bulletStep: "quietStep s (bulletStep dt i s)"
proof (cases "i < length (bullets s)")
  case False
  then show ?thesis by (simp add: bulletStep_def)
next
  case True
  let ?b1 = "moveBullet dt (bullets s ! i)"
  let ?s1 = "s\<lparr> bullets := (bullets s)[i := ?b1] \<rparr>"
  show ?thesis
  proof (cases "life ?b1 \<le> 0")
    case True
    with \<open>i < length (bullets s)\<close> show ?thesis
      by (simp add: bulletStep_def Let_def quietStep_def)
  next
    case alive: False
    show ?thesis
    proof (cases "find (\<lambda>ref. hitTest (bulletPos ?b1) (heap ?s1 ref)) (enemies ?s1)")
      case None
      with alive True show ?thesis
        by (simp add: bulletStep_def Let_def quietStep_def)
    next
      case (Some ref)
      let ?e1 = "(heap ?s1 ref)\<lparr> health := health (heap ?s1 ref)
                                 - (if explosiveTimer ?s1 > 0 then 2 else 1) \<rparr>"
      let ?s2 = "?s1\<lparr> heap := (heap ?s1)(ref := ?e1) \<rparr>"
      have q2: "quietStep s ?s2" by (simp add: quietStep_def)
      have qd: "quietStep s (handleEnemyDeath ref ?s2)"
        by (rule quietStep_trans[OF q2 quiet_handleEnemyDeath])
      have qe: "quietStep s (explodeAt p (handleEnemyDeath ref ?s2))" for p
        by (rule quietStep_trans[OF qd quiet_explodeAt])
      show ?thesis
        using alive True Some q2 qd qe
        by (simp add: bulletStep_def Let_def quietStep_upd(1))
    qed
  qed
qed

lemma quiet_updateBulletsLoop: "quietStep s (updateBulletsLoop dt n s)"
proof (induction n arbitrary: s)
  case 0
  show ?case by simp
next
  case (Suc n)
  from quietStep_trans[OF quiet_bulletStep Suc.IH] show ?case by simp
qed

lemma quiet_enemyStep: "quietStep s (snd (enemyStep dt i s))"
  by (simp add: enemyStep_def Let_def quietStep_def length_removeAt_le)

lemma quiet_updateEnemiesLoop: "quietStep s (updateEnemiesLoop dt n s)"
proof (induction n arbitrary: s)
  case 0
  show ?case by simp
next
  case (Suc n)
  obtain stop s' where st: "enemyStep dt n s = (stop, s')" by (cases "enemyStep dt n s")
  have q: "quietStep s s'" using quiet_enemyStep[of s dt n] by (simp add: st)
  show ?case
    using q quietStep_trans[OF q Suc.IH[of s']] by (cases stop) (simp_all add: st)
qed

lemma quiet_powerUpStep: "quietStep s (powerUpStep dt i s)"
  by (simp add: powerUpStep_def Let_def quietStep_def)

lemma quiet_updatePowerUpsLoop: "quietStep s (updatePowerUpsLoop dt n s)"
proof (induction n arbitrary: s)
  case 0
  show ?case by simp
next
  case (Suc n)
  from quietStep_trans[OF quiet_powerUpStep Suc.IH] show ?case by simp
qed

lemma quiet_updates:
  "quietStep s (updateBullets dt s)"
  "quietStep s (updateEnemies dt s)"
  "quietStep s (updatePowerUps dt s)"
  "quietStep s (updatePowerTimers dt s)"
  "quietStep s (updateFire dt s)"
  "quietStep s (updateScore dt s)"
  "quietStep s (returnToMenu s)"
  "quietStep s (updateKeyboardAim dt s)"
  "quietStep s (updateAimFromPointer hit s)"
  "quietStep s (snd (handleAimKey code isDown s))"
proof -
  show "quietStep s (updateBullets dt s)"
    by (simp add: updateBullets_def quiet_updateBulletsLoop)
  show "quietStep s (updateEnemies dt s)"
    by (simp add: updateEnemies_def quiet_updateEnemiesLoop)
  show "quietStep s (updatePowerUps dt s)"
    by (simp add: updatePowerUps_def quiet_updatePowerUpsLoop)
  show "quietStep s (updatePowerTimers dt s)"
    by (simp add: updatePowerTimers_def Let_def quietStep_def)
  show "quietStep s (updateFire dt s)"
    by (simp add: updateFire_def Let_def quietStep_def)
  show "quietStep s (updateScore dt s)"
    by (simp add: updateScore_def Let_def quietStep_def)
  show "quietStep s (returnToMenu s)"
    by (simp add: returnToMenu_def Let_def quietStep_def)
  show "quietStep s (updateKeyboardAim dt s)" "quietStep s (updateAimFromPointer hit s)"
    "quietStep s (snd (handleAimKey code isDown s))"
    by (simp_all add: quietStep_def)
qed

lemma quiet_tick_rest:
  "quietStep s (updateScore dt (updatePowerTimers dt (updatePowerUps dt (updateEnemies dt
                (updateBullets dt (updateFire dt s))))))"
  by (rule quietStep_trans[OF quietStep_trans[OF quietStep_trans[OF quietStep_trans[OF
        quietStep_trans[OF quiet_updates(5) quiet_updates(1)] quiet_updates(2)]
        quiet_updates(3)] quiet_updates(4)] quiet_updates(6)])

subsection \<open>The wave budget and the deployment bonus\<close>

lemma count_getWaveTuning_nonneg: "0 \<le> count (getWaveTuning w)"
proof -
  have "0 \<le> real w powr (105 / 100)" by simp
  then have "0 \<le> 5 + real w * (21 / 10) + real w powr (105 / 100) * (25 / 100) + 1 / 2"
    by (simp add: add_nonneg_nonneg)
  then show ?thesis
    by (simp add: getWaveTuning_def js_round_def Let_def)
qed

lemma core_eqD:
  assumes "core t = core s"
  shows "wave t = wave s" "waveTuning t = waveTuning s" "enemiesToSpawn t = enemiesToSpawn s"
    "tokenBonuses t = tokenBonuses s" "machine t = machine s"
  using assms by (simp_all add: core_def)

lemma quietStep_waveInv: "quietStep s t \<Longrightarrow> waveInv s \<Longrightarrow> waveInv t"
  by (simp add: quietStep_def waveInv_def pending_def core_def)

lemma quietStep_pending: "quietStep s t \<Longrightarrow> pending t \<le> pending s"
  by (simp add: quietStep_def pending_def core_def)

lemma quietStep_fields:
  assumes "quietStep s t"
  shows "wave t = wave s" "tokenBonuses t = tokenBonuses s" "machine t = machine s"
    "deploymentBonuses t = deploymentBonuses s"
  using assms by (simp_all add: quietStep_def deploymentBonuses_def core_def)

lemma spawnWaveIfReady_waveInv: "waveInv s \<Longrightarrow> waveInv (spawnWaveIfReady dt s)"
  using count_getWaveTuning_nonneg[of "Suc (wave s)"]
  by (simp add: spawnWaveIfReady_def beginWave_def spawnEnemy_def scheduleNextSpawn_def
      setStatus_def pushBridgeStats_def grantTokenBonus_def advanceRandom_def Let_def
      waveInv_def pending_def)

lemma spawnWaveIfReady_same_wave:
  "wave (spawnWaveIfReady dt s) = wave s \<Longrightarrow> pending (spawnWaveIfReady dt s) \<le> pending s"
  by (auto simp add: spawnWaveIfReady_def beginWave_def spawnEnemy_def scheduleNextSpawn_def
      setStatus_def pushBridgeStats_def grantTokenBonus_def advanceRandom_def Let_def
      pending_def split: if_splits)

lemma spawnWaveIfReady_next_wave:
  "wave (spawnWaveIfReady dt s) \<noteq> wave s \<Longrightarrow>
     wave (spawnWaveIfReady dt s) = wave s + 1 \<and> enemiesToSpawn s \<le> 0 \<and> enemies s = []
     \<and> pending (spawnWaveIfReady dt s) = count (waveTuning (spawnWaveIfReady dt s))"
  by (auto simp add: spawnWaveIfReady_def beginWave_def spawnEnemy_def scheduleNextSpawn_def
      setStatus_def pushBridgeStats_def grantTokenBonus_def advanceRandom_def Let_def
      pending_def split: if_splits)

lemma spawnWaveIfReady_bonuses:
  "deploymentBonuses (spawnWaveIfReady dt s) = deploymentBonuses s"
  "machine (spawnWaveIfReady dt s) = machine s"
  by (simp_all add: spawnWaveIfReady_def beginWave_def spawnEnemy_def scheduleNextSpawn_def
      setStatus_def pushBridgeStats_def grantTokenBonus_def advanceRandom_def Let_def
      deploymentBonuses_def)

lemma align_fields [simp]:
  "tokenBonuses (alignTurretToNeutralPose s) = tokenBonuses s"
  "machine (alignTurretToNeutralPose s) = machine s"
  using core_eqD[OF core_aim(3), of s] by simp_all

lemma gameState_align [simp]: "gameState (alignTurretToNeutralPose s) = gameState s"
  by (simp add: alignTurretToNeutralPose_def orientTurretTowards_def Let_def
      split: option.splits)

lemma gameLoop_idle:
  "selectionActive (updateKeyboardAim (min delta (33 / 1000))
       (s\<lparr> elapsedTime := elapsedTime s + min delta (33 / 1000) \<rparr>))
   \<or> gameState (updateKeyboardAim (min delta (33 / 1000))
       (s\<lparr> elapsedTime := elapsedTime s + min delta (33 / 1000) \<rparr>)) \<noteq> Playing
   \<Longrightarrow> gameLoop delta s
        = updateKeyboardAim (min delta (33 / 1000))
            (s\<lparr> elapsedTime := elapsedTime s + min delta (33 / 1000) \<rparr>)"
  by (auto simp add: gameLoop_def Let_def)

lemma gameLoop_active:
  "\<not> (selectionActive (updateKeyboardAim (min delta (33 / 1000))
       (s\<lparr> elapsedTime := elapsedTime s + min delta (33 / 1000) \<rparr>))
   \<or> gameState (updateKeyboardAim (min delta (33 / 1000))
       (s\<lparr> elapsedTime := elapsedTime s + min delta (33 / 1000) \<rparr>)) \<noteq> Playing)
   \<Longrightarrow> gameLoop delta s
        = updateScore (min delta (33 / 1000)) (updatePowerTimers (min delta (33 / 1000))
            (updatePowerUps (min delta (33 / 1000)) (updateEnemies (min delta (33 / 1000))
            (updateBullets (min delta (33 / 1000)) (updateFire (min delta (33 / 1000))
            (spawnWaveIfReady (min delta (33 / 1000))
               (updateKeyboardAim (min delta (33 / 1000))
                  (s\<lparr> elapsedTime := elapsedTime s + min delta (33 / 1000) \<rparr>))))))))"
  by (auto simp add: gameLoop_def Let_def)

lemma keyboard_step:
  fixes s dt
  defines "s1 \<equiv> updateKeyboardAim dt (s\<lparr> elapsedTime := elapsedTime s + dt \<rparr>)"
  shows "quietStep s s1" "enemies s1 = enemies s" "enemiesToSpawn s1 = enemiesToSpawn s"
    "wave s1 = wave s"
proof -
  have c: "core s1 = core s" by (simp add: s1_def)
  show "enemies s1 = enemies s" by (simp add: s1_def)
  then show "quietStep s s1" using c by (simp add: quietStep_def)
  show "enemiesToSpawn s1 = enemiesToSpawn s" "wave s1 = wave s"
    using core_eqD[OF c] by simp_all
qed

lemma gameLoop_waveInv: "waveInv s \<Longrightarrow> waveInv (gameLoop delta s)"
proof -
  assume inv: "waveInv s"
  let ?dt = "min delta (33 / 1000)"
  let ?s1 = "updateKeyboardAim ?dt (s\<lparr> elapsedTime := elapsedTime s + ?dt \<rparr>)"
  have i1: "waveInv ?s1" by (rule quietStep_waveInv[OF keyboard_step(1) inv])
  have i2: "waveInv (spawnWaveIfReady ?dt ?s1)" by (rule spawnWaveIfReady_waveInv[OF i1])
  show ?thesis
  proof (cases "selectionActive ?s1 \<or> gameState ?s1 \<noteq> Playing")
    case True
    from gameLoop_idle[OF True] i1 show ?thesis by simp
  next
    case False
    from gameLoop_active[OF False] quietStep_waveInv[OF quiet_tick_rest i2] show ?thesis
      by simp
  qed
qed

lemma gameLoop_same_wave:
  assumes "wave (gameLoop delta s) = wave s"
  shows "pending (gameLoop delta s) \<le> pending s"
proof -
  let ?dt = "min delta (33 / 1000)"
  let ?s1 = "updateKeyboardAim ?dt (s\<lparr> elapsedTime := elapsedTime s + ?dt \<rparr>)"
  let ?s2 = "spawnWaveIfReady ?dt ?s1"
  let ?t = "updateScore ?dt (updatePowerTimers ?dt (updatePowerUps ?dt (updateEnemies ?dt
                (updateBullets ?dt (updateFire ?dt ?s2)))))"
  have p1: "pending ?s1 \<le> pending s" by (rule quietStep_pending[OF keyboard_step(1)])
  show ?thesis
  proof (cases "selectionActive ?s1 \<or> gameState ?s1 \<noteq> Playing")
    case True
    then have "gameLoop delta s = ?s1" by (rule gameLoop_idle)
    with p1 show ?thesis by simp
  next
    case False
    then have g: "gameLoop delta s = ?t" by (rule gameLoop_active)
    have q: "quietStep ?s2 ?t" by (rule quiet_tick_rest)
    have "wave ?s2 = wave ?t" using quietStep_fields(1)[OF q] by simp
    also have "\<dots> = wave s" using assms g by simp
    also have "\<dots> = wave ?s1" using keyboard_step(4)[where s=s and dt="?dt"] by simp
    finally have "pending ?s2 \<le> pending ?s1" by (rule spawnWaveIfReady_same_wave)
    with quietStep_pending[OF q] p1 g show ?thesis by simp
  qed
qed

lemma gameLoop_next_wave:
  assumes "waveInv s" and "wave (gameLoop delta s) \<noteq> wave s"
  shows "pending s = 0 \<and> wave (gameLoop delta s) = wave s + 1"
proof -
  let ?dt = "min delta (33 / 1000)"
  let ?s1 = "updateKeyboardAim ?dt (s\<lparr> elapsedTime := elapsedTime s + ?dt \<rparr>)"
  let ?s2 = "spawnWaveIfReady ?dt ?s1"
  let ?t = "updateScore ?dt (updatePowerTimers ?dt (updatePowerUps ?dt (updateEnemies ?dt
                (updateBullets ?dt (updateFire ?dt ?s2)))))"
  note k = keyboard_step[where s=s and dt="?dt"]
  show ?thesis
  proof (cases "selectionActive ?s1 \<or> gameState ?s1 \<noteq> Playing")
    case True
    then have "gameLoop delta s = ?s1" by (rule gameLoop_idle)
    with assms(2) k(4) show ?thesis by simp
  next
    case False
    then have g: "gameLoop delta s = ?t" by (rule gameLoop_active)
    have q: "quietStep ?s2 ?t" by (rule quiet_tick_rest)
    have w: "wave ?t = wave ?s2" by (rule quietStep_fields(1)[OF q])
    have "wave ?s2 \<noteq> wave ?s1" using assms(2) g w k(4) by simp
    from spawnWaveIfReady_next_wave[OF this]
    have n: "wave ?s2 = wave ?s1 + 1" "enemiesToSpawn ?s1 \<le> 0" "enemies ?s1 = []"
      by simp_all
    have "pending s = 0"
      using n(2,3) k(2,3) assms(1) by (simp add: pending_def waveInv_def)
    moreover have "wave (gameLoop delta s) = wave s + 1"
      using g w n(1) k(4) by simp
    ultimately show ?thesis by simp
  qed
qed

lemma gameLoop_bonuses:
  "deploymentBonuses (gameLoop delta s) = deploymentBonuses s"
proof -
  let ?dt = "min delta (33 / 1000)"
  let ?s1 = "updateKeyboardAim ?dt (s\<lparr> elapsedTime := elapsedTime s + ?dt \<rparr>)"
  let ?s2 = "spawnWaveIfReady ?dt ?s1"
  have d1: "deploymentBonuses ?s1 = deploymentBonuses s"
    by (rule quietStep_fields(4)[OF keyboard_step(1)])
  have d2: "deploymentBonuses ?s2 = deploymentBonuses s"
    using spawnWaveIfReady_bonuses(1)[of ?dt ?s1] d1 by simp
  show ?thesis
  proof (cases "selectionActive ?s1 \<or> gameState ?s1 \<noteq> Playing")
    case True
    from gameLoop_idle[OF True] d1 show ?thesis by simp
  next
    case False
    from gameLoop_active[OF False] quietStep_fields(4)[OF quiet_tick_rest[of ?s2 ?dt]] d2
    show ?thesis by simp
  qed
qed

lemma resetGame_built:
  assumes "machine s \<noteq> None"
  shows "waveInv (resetGame s)" "pending (resetGame s) = count (waveTuning (resetGame s))"
    "wave (resetGame s) = 1" "waveTuning (resetGame s) = getWaveTuning 1"
    "enemies (resetGame s) = []" "gameState (resetGame s) = Playing"
proof -
  from assms obtain m where m: "machine s = Some m" by blast
  show "waveInv (resetGame s)" "pending (resetGame s) = count (waveTuning (resetGame s))"
    "wave (resetGame s) = 1" "waveTuning (resetGame s) = getWaveTuning 1"
    "enemies (resetGame s) = []" "gameState (resetGame s) = Playing"
    using count_getWaveTuning_nonneg[of 1]
    by (simp_all add: m resetGame_def beginWave_def scheduleNextSpawn_def setStatus_def
        pushBridgeStats_def Let_def waveInv_def pending_def)
qed

lemma resetGame_no_machine: "machine s = None \<Longrightarrow> quietStep s (resetGame s)"
  by (simp add: resetGame_def quietStep_def)

lemma resetGame_bonuses [simp]:
  "tokenBonuses (resetGame s) = tokenBonuses s" "machine (resetGame s) = machine s"
  by (simp_all add: resetGame_def beginWave_def scheduleNextSpawn_def setStatus_def
      pushBridgeStats_def setGameReadiness_def Let_def)

lemma resetGame_waveInv: "waveInv s \<Longrightarrow> waveInv (resetGame s)"
  using resetGame_built(1)[of s] quietStep_waveInv[OF resetGame_no_machine, of s]
  by (cases "machine s") simp_all

lemma restartGame_fields:
  "tokenBonuses (restartGame s) = tokenBonuses s"
  "waveInv s \<Longrightarrow> waveInv (restartGame s)"
  using resetGame_waveInv[of s]
  by (simp_all add: restartGame_def Let_def waveInv_def pending_def)

lemma act_waveInv: "waveInv s \<Longrightarrow> waveInv (act a s)"
proof (cases a)
  case (Tick d)
  assume "waveInv s" then show ?thesis using Tick by (simp add: gameLoop_waveInv)
next
  case (PointerMove h)
  assume "waveInv s" then show ?thesis
    using PointerMove quietStep_waveInv[OF quiet_updates(9)] by simp
next
  case (Key c d)
  assume "waveInv s" then show ?thesis
    using Key quietStep_waveInv[OF quiet_updates(10)] by simp
next
  case Restart
  assume "waveInv s" then show ?thesis using Restart by (simp add: restartGame_fields)
next
  case ReturnToMenu
  assume "waveInv s" then show ?thesis
    using ReturnToMenu quietStep_waveInv[OF quiet_updates(7)] by simp
qed

lemma act_bonuses: "deploymentBonuses (act a s) = deploymentBonuses s"
proof (cases a)
  case (Tick d)
  then show ?thesis by (simp add: gameLoop_bonuses)
next
  case (PointerMove h)
  then show ?thesis using quietStep_fields(4)[OF quiet_updates(9)] by simp
next
  case (Key c d)
  then show ?thesis using quietStep_fields(4)[OF quiet_updates(10)] by simp
next
  case Restart
  then show ?thesis by (simp add: deploymentBonuses_def restartGame_fields)
next
  case ReturnToMenu
  then show ?thesis using quietStep_fields(4)[OF quiet_updates(7)] by simp
qed

lemma run_waveInv: "waveInv s \<Longrightarrow> waveInv (run acts s)"
  by (induction acts arbitrary: s) (simp_all add: act_waveInv)

lemma run_bonuses: "deploymentBonuses (run acts s) = deploymentBonuses s"
  by (induction acts arbitrary: s) (simp_all add: act_bonuses)

lemma startSession_fields:
  "tokenBonuses (startSession s)
     = (if machine s = None then tokenBonuses s
        else tokenBonuses s @ [(Deployment, DEPLOYMENT_BONUS)])"
  "machine s \<noteq> None \<Longrightarrow> waveInv (startSession s)"
proof -
  show "tokenBonuses (startSession s)
     = (if machine s = None then tokenBonuses s
        else tokenBonuses s @ [(Deployment, DEPLOYMENT_BONUS)])"
    by (simp add: startSession_def grantTokenBonus_def)
  assume b: "machine s \<noteq> None"
  from resetGame_built(1)[OF b] b show "waveInv (startSession s)"
    by (auto simp add: startSession_def grantTokenBonus_def waveInv_def pending_def)
qed

lemma gameLoop_wave:
  "wave (gameLoop delta s) =
     (let dt = min delta (33 / 1000);
          s1 = updateKeyboardAim dt (s\<lparr> elapsedTime := elapsedTime s + dt \<rparr>)
      in if \<not> selectionActive s1 \<and> gameState s1 = Playing
         then wave (spawnWaveIfReady dt s1) else wave s)"
proof -
  let ?dt = "min delta (33 / 1000)"
  let ?s1 = "updateKeyboardAim ?dt (s\<lparr> elapsedTime := elapsedTime s + ?dt \<rparr>)"
  show ?thesis
  proof (cases "selectionActive ?s1 \<or> gameState ?s1 \<noteq> Playing")
    case True
    have g: "gameLoop delta s = ?s1" by (rule gameLoop_idle[OF True])
    have k: "wave ?s1 = wave s" by (rule keyboard_step(4)[where s=s and dt="?dt"])
    have nc: "\<not> (\<not> selectionActive ?s1 \<and> gameState ?s1 = Playing)" using True by blast
    show ?thesis by (simp only: Let_def g k if_not_P[OF nc])
  next
    case False
    have g: "gameLoop delta s
               = updateScore ?dt (updatePowerTimers ?dt (updatePowerUps ?dt (updateEnemies ?dt
                   (updateBullets ?dt (updateFire ?dt (spawnWaveIfReady ?dt ?s1))))))"
      by (rule gameLoop_active[OF False])
    have w: "wave (updateScore ?dt (updatePowerTimers ?dt (updatePowerUps ?dt
                (updateEnemies ?dt (updateBullets ?dt (updateFire ?dt
                   (spawnWaveIfReady ?dt ?s1)))))))
               = wave (spawnWaveIfReady ?dt ?s1)"
      by (rule quietStep_fields(1)[OF quiet_tick_rest])
    have c: "\<not> selectionActive ?s1 \<and> gameState ?s1 = Playing" using False by blast
    show ?thesis by (simp only: Let_def g w if_P[OF c])
  qed
qed

lemma applyMachineVariant_fields:
  "tokenBonuses (applyMachineVariant vs k s) = tokenBonuses s"
  "k < length vs \<Longrightarrow> machine (applyMachineVariant vs k s) = Some (vs ! k)"
  by (simp_all add: applyMachineVariant_def Let_def setStatus_def pushBridgeStats_def
      setActiveMachineFromGame_def)

lemma findIndex_Some: "findIndex P xs = Some k \<Longrightarrow> k < length xs"
  by (induction xs arbitrary: k) (auto split: if_splits)

lemma selectMachine_fields:
  "tokenBonuses (snd (selectMachine vs mid s)) = tokenBonuses s"
  "fst (selectMachine vs mid s) \<Longrightarrow> machine (snd (selectMachine vs mid s)) \<noteq> None"
  by (auto simp add: selectMachine_def handleVariantSelection_def setGameReadiness_def
      applyMachineVariant_fields dest: findIndex_Some split: option.splits)

lemma deployMachine_bonuses:
  "tokenBonuses (snd (deployMachine vs minted mid s))
     = tokenBonuses s @
       (if fst (deployMachine vs minted mid s) then [(Deployment, DEPLOYMENT_BONUS)] else [])"
proof (cases minted)
  case False
  then show ?thesis by (simp add: deployMachine_def)
next
  case True
  obtain ok s1 where sm: "selectMachine vs mid s = (ok, s1)" by (cases "selectMachine vs mid s")
  have tb: "tokenBonuses s1 = tokenBonuses s" using selectMachine_fields(1)[of vs mid s]
    by (simp add: sm)
  show ?thesis
  proof (cases ok)
    case False
    then show ?thesis using True tb by (simp add: deployMachine_def sm)
  next
    case ok: True
    have "machine s1 \<noteq> None" using selectMachine_fields(2)[of vs mid s] ok by (simp add: sm)
    then show ?thesis using True ok tb
      by (auto simp add: deployMachine_def sm startSession_fields(1))
  qed
qed

text \<open>
  C2. Write \<open>pending\<close> for \<open>enemiesToSpawn + |enemies|\<close>. The bound
  \<open>pending \<le> waveTuning.count\<close> (with \<open>enemiesToSpawn \<ge> 0\<close>, together \<open>waveInv\<close>)
  is kept by every tick, holds after \<open>resetGame\<close> (where \<open>pending\<close> equals the
  count) and so in every state of a session, whatever ticks, pointer and key
  events, restarts and returns to the menu follow its start. A tick that
  stays in the wave never increases \<open>pending\<close>; a tick moves to the next wave
  only from a state in which \<open>pending\<close> has reached 0.
\<close>

theorem C2_wave_budget:
  "(waveInv s \<longrightarrow>
      waveInv (gameLoop delta s)
      \<and> pending (gameLoop delta s) \<le> count (waveTuning (gameLoop delta s)))
   \<and> (wave (gameLoop delta s) = wave s \<longrightarrow> pending (gameLoop delta s) \<le> pending s)
   \<and> (waveInv s \<and> wave (gameLoop delta s) \<noteq> wave s \<longrightarrow>
        pending s = 0 \<and> wave (gameLoop delta s) = wave s + 1)
   \<and> (machine s \<noteq> None \<longrightarrow>
        waveInv (resetGame s) \<and> pending (resetGame s) = count (waveTuning (resetGame s)))
   \<and> (machine s \<noteq> None \<longrightarrow>
        waveInv (run acts (startSession s))
        \<and> pending (run acts (startSession s)) \<le> count (waveTuning (run acts (startSession s))))"
proof -
  have a: "waveInv t \<Longrightarrow> pending t \<le> count (waveTuning t)" for t
    by (simp add: waveInv_def)
  have r: "waveInv (run acts (startSession s))" if "machine s \<noteq> None"
    by (rule run_waveInv[OF startSession_fields(2)[OF that]])
  show ?thesis
    using a gameLoop_waveInv[of s delta] gameLoop_same_wave[of delta s]
      gameLoop_next_wave[of s delta] resetGame_built(1,2)[of s] r
    by blast
qed

text \<open>
  C9. \<open>restartGame\<close> grants no token bonus at all, and no tick, pointer or key
  event, restart or return to the menu adds a deployment bonus. \<open>startSession\<close>
  grants \<open>DEPLOYMENT_BONUS\<close> exactly once when a machine is built (and nothing
  otherwise), \<open>deployMachine\<close> exactly once when it succeeds; so over a session,
  from its start through any sequence of such events, the deployment bonus is
  emitted at most once.
\<close>

theorem C9_deployment_bonus_once:
  "tokenBonuses (restartGame s) = tokenBonuses s
   \<and> deploymentBonuses (act a s) = deploymentBonuses s
   \<and> tokenBonuses (startSession s)
       = (if machine s = None then tokenBonuses s
          else tokenBonuses s @ [(Deployment, DEPLOYMENT_BONUS)])
   \<and> tokenBonuses (snd (deployMachine vs minted mid s))
       = tokenBonuses s @
         (if fst (deployMachine vs minted mid s) then [(Deployment, DEPLOYMENT_BONUS)] else [])
   \<and> deploymentBonuses (run acts (startSession s))
       = deploymentBonuses s @
         (if machine s = None then [] else [(Deployment, DEPLOYMENT_BONUS)])
   \<and> length (deploymentBonuses (run acts (startSession s))) \<le> length (deploymentBonuses s) + 1"
proof -
  have d: "deploymentBonuses (run acts (startSession s))
       = deploymentBonuses s @
         (if machine s = None then [] else [(Deployment, DEPLOYMENT_BONUS)])"
    by (simp add: run_bonuses) (simp add: deploymentBonuses_def startSession_fields(1))
  have l: "length (deploymentBonuses (run acts (startSession s)))
             \<le> length (deploymentBonuses s) + 1"
    by (simp add: d)
  show ?thesis
    using d l restartGame_fields(1)[of s] act_bonuses[of a s] startSession_fields(1)[of s]
      deployMachine_bonuses[of vs minted mid s]
    by blast
qed

lemma count_wave1: "count (getWaveTuning 1) = 7" "maxSimultaneous (getWaveTuning 1) = 5"
  by (simp_all add: getWaveTuning_def js_round_def Let_def)

lemma count_wave1_Suc: "count (getWaveTuning (Suc 0)) = 7"
  using count_wave1(1) by simp

lemma wave_spawnWaveIfReady:
  "wave (spawnWaveIfReady dt s) =
     (if enemiesToSpawn s > 0 then wave s
      else if enemies s = [] \<and> gameState s = Playing \<and> \<not> intermission s \<le> 0
              \<and> intermission s - dt \<le> 0
      then wave s + 1 else wave s)"
  by (simp add: spawnWaveIfReady_def beginWave_def spawnEnemy_def scheduleNextSpawn_def
      setStatus_def pushBridgeStats_def grantTokenBonus_def advanceRandom_def Let_def)

lemma updateKeyboardAim_idle:
  "right (aimInputState s) = left (aimInputState s) \<Longrightarrow>
   up (aimInputState s) = down (aimInputState s) \<Longrightarrow> updateKeyboardAim dt s = s"
  by (simp add: updateKeyboardAim_def Let_def lengthSq_def)

lemma demoSim_keys_idle:
  "right (aimInputState (demoSim\<lparr> elapsedTime := e \<rparr>))
     = left (aimInputState (demoSim\<lparr> elapsedTime := e \<rparr>))"
  "up (aimInputState (demoSim\<lparr> elapsedTime := e \<rparr>))
     = down (aimInputState (demoSim\<lparr> elapsedTime := e \<rparr>))"
  by (simp_all add: demoSim_def)

theorem C2_wave_budget_witness:
  "waveInv demoMidWaveSim \<and> pending demoMidWaveSim = 5
   \<and> count (waveTuning demoMidWaveSim) = 7
   \<and> wave (gameLoop (33 / 1000) demoMidWaveSim) = wave demoMidWaveSim
   \<and> pending (gameLoop (33 / 1000) demoMidWaveSim) \<le> 5
   \<and> waveInv demoWaveEndSim \<and> pending demoWaveEndSim = 0
   \<and> wave (gameLoop (33 / 1000) demoWaveEndSim) \<noteq> wave demoWaveEndSim
   \<and> wave (gameLoop (33 / 1000) demoWaveEndSim) = 2
   \<and> machine demoSim \<noteq> None
   \<and> waveInv (resetGame demoSim) \<and> pending (resetGame demoSim) = 7
   \<and> waveInv (run [Tick (33 / 1000), Restart] (startSession demoSim))"
proof -
  have k1: "updateKeyboardAim dt (demoMidWaveSim\<lparr> elapsedTime := e \<rparr>)
              = demoMidWaveSim\<lparr> elapsedTime := e \<rparr>" for dt e
    by (rule updateKeyboardAim_idle) (simp_all add: demoMidWaveSim_def demoSim_def)
  have k2: "updateKeyboardAim dt (demoWaveEndSim\<lparr> elapsedTime := e \<rparr>)
              = demoWaveEndSim\<lparr> elapsedTime := e \<rparr>" for dt e
    by (rule updateKeyboardAim_idle) (simp_all add: demoWaveEndSim_def demoSim_def)
  have i1: "waveInv demoMidWaveSim" and p1: "pending demoMidWaveSim = 5"
    and c1: "count (waveTuning demoMidWaveSim) = 7"
    by (simp_all add: waveInv_def pending_def demoMidWaveSim_def demoSim_def count_wave1_Suc)
  have w1: "wave (gameLoop (33 / 1000) demoMidWaveSim) = wave demoMidWaveSim"
    by (simp add: gameLoop_wave Let_def k1 wave_spawnWaveIfReady)
       (simp add: demoMidWaveSim_def demoSim_def)
  have i2: "waveInv demoWaveEndSim" and p2: "pending demoWaveEndSim = 0"
    by (simp_all add: waveInv_def pending_def demoWaveEndSim_def demoSim_def count_wave1_Suc)
  have w2: "wave (gameLoop (33 / 1000) demoWaveEndSim) = 2"
    by (simp add: gameLoop_wave Let_def k2 wave_spawnWaveIfReady)
       (simp add: demoWaveEndSim_def demoSim_def)
  have w0: "wave demoWaveEndSim = 1" by (simp add: demoWaveEndSim_def demoSim_def)
  have m: "machine demoSim \<noteq> None" by (simp add: demoSim_def)
  note t1 = C2_wave_budget[of demoMidWaveSim "33 / 1000" "[]"]
  note t2 = C2_wave_budget[of demoSim "33 / 1000" "[Tick (33 / 1000), Restart]"]
  have g1: "pending (gameLoop (33 / 1000) demoMidWaveSim) \<le> 5"
    using t1 w1 p1 by simp
  have r1: "waveInv (resetGame demoSim)"
    "pending (resetGame demoSim) = count (waveTuning (resetGame demoSim))"
    "waveInv (run [Tick (33 / 1000), Restart] (startSession demoSim))"
    using t2 m by blast+
  have r2: "pending (resetGame demoSim) = 7"
    using r1(2) resetGame_built(4)[OF m] by (simp add: count_wave1_Suc)
  show ?thesis
    using i1 p1 c1 w1 g1 i2 p2 w2 w0 m r1(1,3) r2 by simp
qed

subsection \<open>Loop indices\<close>

text \<open>
  The three loops run their index from the last element down and remove at
  most the element they are at, so the index of the next pass is again inside
  the array: the out-of-range branch of each step function is never reached.
\<close>

lemma bulletStep_in_range:
  assumes "i < length (bullets s)"
  shows "i \<le> length (bullets (bulletStep dt i s))"
proof -
  let ?b1 = "moveBullet dt (bullets s ! i)"
  let ?s1 = "s\<lparr> bullets := (bullets s)[i := ?b1] \<rparr>"
  have r: "i \<le> length (removeAt i (bullets s))"
    using assms by (simp add: removeAt_def)
  show ?thesis
  proof (cases "life ?b1 \<le> 0")
    case True
    with assms r show ?thesis
      by (simp add: bulletStep_def Let_def removeAt_update)
  next
    case alive: False
    show ?thesis
    proof (cases "find (\<lambda>ref. hitTest (bulletPos ?b1) (heap s ref)) (enemies s)")
      case None
      with alive assms show ?thesis
        by (simp add: bulletStep_def Let_def)
    next
      case (Some ref)
      have "0 < life (bullets s ! i) - dt" using alive by (simp add: moveBullet_def)
      from bulletStep_hit_bullets[OF assms this Some] r show ?thesis by simp
    qed
  qed
qed

lemma enemyStep_in_range:
  assumes "i < length (enemies s)"
  shows "i \<le> length (enemies (snd (enemyStep dt i s)))"
  using assms by (auto simp add: enemyStep_def Let_def removeAt_def)

lemma powerUpStep_in_range:
  assumes "i < length (powerUps s)"
  shows "i \<le> length (powerUps (powerUpStep dt i s))"
proof -
  have p: "powerUps (applyPowerUp pw t) = powerUps t" for pw t
    by (cases pw) (simp_all add: applyPowerUp_def setStatus_def pushBridgeStats_def)
  show ?thesis
    using assms by (auto simp add: powerUpStep_def Let_def removeAt_def p)
qed

end
